theory Spec2Isabelle
  imports Main "HOL-Library.AList"
begin

unbundle bit_operations_syntax

section \<open>Data model of \<^verbatim>\<open>src/key.js\<close>\<close>

text \<open>
  Packets are JavaScript objects with a \<^verbatim>\<open>tag\<close>. Key packets, user packets and
  signature packets are the three kinds \<^verbatim>\<open>key.js\<close> looks into; every other packet is
  \<open>OtherPacket\<close>. A \<^verbatim>\<open>Date\<close> is its number of milliseconds since the epoch (an
  \<open>int\<close>); \<^verbatim>\<open>null\<close> and \<^verbatim>\<open>undefined\<close> are \<open>None\<close>. Key IDs, fingerprints and raw
  signature bytes are byte lists, compared by equality.

  The packet classes are not under \<^verbatim>\<open>src/\<close>; a record has the properties that
  \<^verbatim>\<open>key.js\<close> reads, with the types the spec's data model gives them. The results of
  \<^verbatim>\<open>getKeyId()\<close> and \<^verbatim>\<open>getFingerprint()\<close> are fields of a key packet, \<open>params0\<close> is
  the OID \<^verbatim>\<open>params[0]\<close> of an elliptic-curve key, \<open>algorithm\<close> is the name of the
  algorithm, and \<open>isPrimaryUserID\<close> is the optional numeric weight of the spec. The
  flags \<open>verified\<close> and \<open>revoked\<close> of a signature are the two caches that \<^verbatim>\<open>key.js\<close>
  reads and writes; functions that change them return the signatures afterwards.
\<close>

type_synonym keyid = "nat list"
type_synonym bytes = "nat list"

datatype key_tag = T_publicKey | T_secretKey | T_publicSubkey | T_secretSubkey

datatype user_tag = T_userid | T_userAttribute

datatype pk_algorithm =
  rsa_encrypt_sign | rsa_encrypt | rsa_sign | elgamal | dsa | ecdh | ecdsa | eddsa

datatype hash_algo = md5 | sha1 | ripemd | sha256 | sha384 | sha512 | sha224

datatype signature_type =
  cert_generic | cert_persona | cert_casual | cert_positive | cert_revocation
  | sig_key | subkey_binding | key_revocation | subkey_revocation | sig_other nat

record keypacket =
  tag :: key_tag
  version :: nat
  algorithm :: pk_algorithm
  created :: int
  expirationTimeV3 :: nat
  getKeyId :: keyid
  getFingerprint :: bytes
  params0 :: bytes

record userpacket =
  utag :: user_tag
  content :: bytes

record signature =
  signatureType :: signature_type
  issuerKeyId :: keyid
  sig_created :: int
  keyExpirationTime :: "nat option"
  keyNeverExpires :: "bool option"
  isPrimaryUserID :: "nat option"
  keyFlags :: "nat list option"
  preferredHashAlgorithms :: "hash_algo list option"
  preferredSymmetricAlgorithms :: "nat list option"
  verified :: "bool option"
  revoked :: "bool option"
  sig_bytes :: bytes

datatype packet =
  KeyPacket keypacket | UserPacket userpacket | SignaturePacket signature | OtherPacket nat

record user =
  userId :: "userpacket option"
  userAttribute :: "userpacket option"
  selfCertifications :: "signature list"
  otherCertifications :: "signature list"
  u_revocationSignatures :: "signature list"

record subkey =
  subKey :: keypacket
  bindingSignatures :: "signature list"
  s_revocationSignatures :: "signature list"

record key =
  primaryKey :: keypacket
  revocationSignatures :: "signature list"
  directSignatures :: "signature list"
  users :: "user list"
  subKeys :: "subkey list"

datatype jserror = TypeError | Error string

text \<open>\<^verbatim>\<open>function User(userPacket)\<close> and \<^verbatim>\<open>function SubKey(subKeyPacket)\<close>.\<close>

definition User :: "userpacket \<Rightarrow> user" where
  "User userPacket =
     \<lparr> userId = (if utag userPacket = T_userid then Some userPacket else None),
       userAttribute = (if utag userPacket = T_userAttribute then Some userPacket else None),
       selfCertifications = [], otherCertifications = [], u_revocationSignatures = [] \<rparr>"

definition SubKey :: "keypacket \<Rightarrow> subkey" where
  "SubKey subKeyPacket =
     \<lparr> subKey = subKeyPacket, bindingSignatures = [], s_revocationSignatures = [] \<rparr>"

section \<open>Structure builder: \<^verbatim>\<open>Key.prototype.packetlist2structure\<close>\<close>

text \<open>
  The state of the loop: the five fields of the \<^verbatim>\<open>Key\<close> under construction
  (\<^verbatim>\<open>primaryKey\<close> starts as \<^verbatim>\<open>null\<close>) and the three locals \<^verbatim>\<open>user\<close>,
  \<^verbatim>\<open>primaryKeyId\<close> and \<^verbatim>\<open>subKey\<close>. The locals \<^verbatim>\<open>user\<close> and \<^verbatim>\<open>subKey\<close> hold
  references to objects that were pushed onto \<^verbatim>\<open>this.users\<close> and \<^verbatim>\<open>this.subKeys\<close>;
  the model keeps the position of that object in the list, and a push through the
  local updates the list element.
\<close>

record build_state =
  b_primaryKey :: "keypacket option"
  b_revocationSignatures :: "signature list"
  b_directSignatures :: "signature list"
  b_users :: "user list"
  b_subKeys :: "subkey list"
  l_user :: "nat option"
  l_primaryKeyId :: "keyid option"
  l_subKey :: "nat option"

definition build_init :: build_state where
  "build_init =
     \<lparr> b_primaryKey = None, b_revocationSignatures = [], b_directSignatures = [],
       b_users = [], b_subKeys = [], l_user = None, l_primaryKeyId = None, l_subKey = None \<rparr>"

fun is_certification :: "signature_type \<Rightarrow> bool" where
  "is_certification cert_generic = True"
| "is_certification cert_persona = True"
| "is_certification cert_casual = True"
| "is_certification cert_positive = True"
| "is_certification _ = False"

text \<open>One \<^verbatim>\<open>case enums.packet.signature\<close> iteration: the inner switch on
  \<^verbatim>\<open>signatureType\<close>. A \<^verbatim>\<open>continue\<close> and a type with no case leave the state as it is.
  \<^verbatim>\<open>issuerKeyId.equals(primaryKeyId)\<close> is equality of key IDs. The key ID class is not
  under \<^verbatim>\<open>src/\<close>; \<^verbatim>\<open>equals\<close> reads a property of its argument, so while no primary
  key packet has been read and \<^verbatim>\<open>primaryKeyId\<close> is \<^verbatim>\<open>undefined\<close>, the call throws a
  \<^verbatim>\<open>TypeError\<close>, which ends the loop and the constructor.\<close>

definition signature_case :: "build_state \<Rightarrow> signature \<Rightarrow> jserror + build_state" where
  "signature_case st s =
     (if is_certification (signatureType s) then
        (case l_user st of
           None \<Rightarrow> Inr st
         | Some i \<Rightarrow>
             (case l_primaryKeyId st of
                None \<Rightarrow> Inl TypeError
              | Some primaryKeyId \<Rightarrow>
                  if issuerKeyId s = primaryKeyId
                  then Inr (st\<lparr>b_users := (b_users st)
                         [i := (b_users st ! i)\<lparr>selfCertifications :=
                                  selfCertifications (b_users st ! i) @ [s]\<rparr>]\<rparr>)
                  else Inr (st\<lparr>b_users := (b_users st)
                         [i := (b_users st ! i)\<lparr>otherCertifications :=
                                  otherCertifications (b_users st ! i) @ [s]\<rparr>]\<rparr>)))
      else if signatureType s = cert_revocation then
        (case l_user st of
           Some i \<Rightarrow> Inr (st\<lparr>b_users := (b_users st)
                    [i := (b_users st ! i)\<lparr>u_revocationSignatures :=
                             u_revocationSignatures (b_users st ! i) @ [s]\<rparr>]\<rparr>)
         | None \<Rightarrow> Inr (st\<lparr>b_directSignatures := b_directSignatures st @ [s]\<rparr>))
      else if signatureType s = sig_key then
        Inr (st\<lparr>b_directSignatures := b_directSignatures st @ [s]\<rparr>)
      else if signatureType s = subkey_binding then
        (case l_subKey st of
           None \<Rightarrow> Inr st
         | Some i \<Rightarrow> Inr (st\<lparr>b_subKeys := (b_subKeys st)
                    [i := (b_subKeys st ! i)\<lparr>bindingSignatures :=
                             bindingSignatures (b_subKeys st ! i) @ [s]\<rparr>]\<rparr>))
      else if signatureType s = key_revocation then
        Inr (st\<lparr>b_revocationSignatures := b_revocationSignatures st @ [s]\<rparr>)
      else if signatureType s = subkey_revocation then
        (case l_subKey st of
           None \<Rightarrow> Inr st
         | Some i \<Rightarrow> Inr (st\<lparr>b_subKeys := (b_subKeys st)
                    [i := (b_subKeys st ! i)\<lparr>s_revocationSignatures :=
                             s_revocationSignatures (b_subKeys st ! i) @ [s]\<rparr>]\<rparr>))
      else Inr st)"

text \<open>One iteration of the \<^verbatim>\<open>for\<close> loop: the outer switch on \<^verbatim>\<open>packetlist[i].tag\<close>.\<close>

fun packet_case :: "build_state \<Rightarrow> packet \<Rightarrow> jserror + build_state" where
  "packet_case st (KeyPacket p) =
     (if tag p = T_publicKey \<or> tag p = T_secretKey then
        Inr (st\<lparr>b_primaryKey := Some p, l_primaryKeyId := Some (getKeyId p)\<rparr>)
      else
        Inr (st\<lparr>l_user := None, l_subKey := Some (length (b_subKeys st)),
                b_subKeys := b_subKeys st @ [SubKey p]\<rparr>))"
| "packet_case st (UserPacket p) =
     Inr (st\<lparr>l_user := Some (length (b_users st)), b_users := b_users st @ [User p]\<rparr>)"
| "packet_case st (SignaturePacket s) = signature_case st s"
| "packet_case st (OtherPacket n) = Inr st"

text \<open>The \<^verbatim>\<open>for\<close> loop from a state on; an exception ends it.\<close>

fun packets_loop :: "build_state \<Rightarrow> packet list \<Rightarrow> jserror + build_state" where
  "packets_loop st [] = Inr st"
| "packets_loop st (p # ps) =
     (case packet_case st p of Inl e \<Rightarrow> Inl e | Inr st' \<Rightarrow> packets_loop st' ps)"

definition packetlist2structure :: "packet list \<Rightarrow> jserror + build_state" where
  "packetlist2structure packetlist = packets_loop build_init packetlist"

text \<open>\<^verbatim>\<open>function Key(packetlist)\<close>: build, then throw unless there is a primary key
  and at least one user. An exception of the builder leaves the constructor.\<close>

definition Key :: "packet list \<Rightarrow> jserror + key" where
  "Key packetlist =
     (case packetlist2structure packetlist of
        Inl e \<Rightarrow> Inl e
      | Inr st \<Rightarrow>
          (case b_primaryKey st of
             None \<Rightarrow> Inl (Error ''Invalid key: need at least key and user ID packet'')
           | Some pk \<Rightarrow>
               if b_users st = []
               then Inl (Error ''Invalid key: need at least key and user ID packet'')
               else Inr \<lparr> primaryKey = pk,
                          revocationSignatures = b_revocationSignatures st,
                          directSignatures = b_directSignatures st,
                          users = b_users st, subKeys = b_subKeys st \<rparr>))"

section \<open>Serialisation: \<^verbatim>\<open>toPacketlist\<close>\<close>

text \<open>\<^verbatim>\<open>packetlist.push(this.userId || this.userAttribute)\<close>: a user built by
  \<open>User\<close> has one of the two; pushing \<^verbatim>\<open>null\<close> adds no packet.\<close>

definition User_toPacketlist :: "user \<Rightarrow> packet list" where
  "User_toPacketlist u =
     (case userId u of
        Some p \<Rightarrow> [UserPacket p]
      | None \<Rightarrow> (case userAttribute u of Some p \<Rightarrow> [UserPacket p] | None \<Rightarrow> []))
     @ map SignaturePacket (u_revocationSignatures u)
     @ map SignaturePacket (selfCertifications u)
     @ map SignaturePacket (otherCertifications u)"

definition SubKey_toPacketlist :: "subkey \<Rightarrow> packet list" where
  "SubKey_toPacketlist sk =
     KeyPacket (subKey sk)
     # map SignaturePacket (s_revocationSignatures sk)
     @ map SignaturePacket (bindingSignatures sk)"

definition toPacketlist :: "key \<Rightarrow> packet list" where
  "toPacketlist k =
     KeyPacket (primaryKey k)
     # map SignaturePacket (revocationSignatures k)
     @ map SignaturePacket (directSignatures k)
     @ concat (map User_toPacketlist (users k))
     @ concat (map SubKey_toPacketlist (subKeys k))"

section \<open>External collaborators\<close>

text \<open>
  \<^verbatim>\<open>key.js\<close> calls into the signature packet, the enum table, the hash module, the
  utilities and the clock, none of which is under \<^verbatim>\<open>src/\<close>. They are parameters of the
  model: \<open>verify\<close> is the outcome of \<^verbatim>\<open>Signature.prototype.verify(key, data)\<close>,
  \<open>isExpired\<close> that of \<^verbatim>\<open>Signature.prototype.isExpired(date)\<close>, \<open>now\<close> is
  \<^verbatim>\<open>new Date()\<close>, \<open>getHashByteLength\<close> answers \<open>None\<close> where the hash module throws.
  The enum table gives the numbers behind \<^verbatim>\<open>enums.keyStatus\<close>, \<^verbatim>\<open>enums.keyFlags\<close> and
  \<^verbatim>\<open>enums.symmetric\<close>; \<open>symmetric_known n\<close> says that \<^verbatim>\<open>enums.read(enums.symmetric, n)\<close>
  returns a name instead of throwing.
\<close>

datatype keyStatus = KS_invalid | KS_expired | KS_revoked | KS_valid | KS_no_self_cert

record dataToVerify =
  d_key :: "keypacket option"
  d_userid :: "userpacket option"
  d_bind :: "keypacket option"

record enums =
  keyStatus_number :: "keyStatus \<Rightarrow> nat"
  keyFlags_sign_data :: nat
  keyFlags_encrypt_communication :: nat
  keyFlags_encrypt_storage :: nat
  symmetric_plaintext :: nat
  symmetric_idea :: nat
  symmetric_aes256 :: nat
  symmetric_known :: "nat \<Rightarrow> bool"

record config =
  prefer_hash_algorithm :: hash_algo
  encryption_cipher :: nat
  revocations_expire :: bool

record ext =
  verify :: "signature \<Rightarrow> keypacket \<Rightarrow> dataToVerify \<Rightarrow> bool"
  isExpired :: "signature \<Rightarrow> int option \<Rightarrow> bool"
  now :: int
  getHashByteLength :: "hash_algo option \<Rightarrow> nat option"
  enums :: enums
  config :: config

text \<open>\<^verbatim>\<open>src/config/config.js\<close>, the three properties \<^verbatim>\<open>key.js\<close> reads.\<close>

definition config_js :: "enums \<Rightarrow> config" where
  "config_js en =
     \<lparr> prefer_hash_algorithm = sha256, encryption_cipher = symmetric_aes256 en,
       revocations_expire = False \<rparr>"

text \<open>Modelled from the spec: \<^verbatim>\<open>util.normalizeDate\<close> is not under \<^verbatim>\<open>src/\<close>; it
  ``floors to seconds and maps null to null''.\<close>

definition normalizeDate :: "int option \<Rightarrow> int option" where
  "normalizeDate time = (case time of None \<Rightarrow> None | Some t \<Rightarrow> Some ((t div 1000) * 1000))"

text \<open>Truthiness of the two cached flags (\<^verbatim>\<open>null\<close>, \<^verbatim>\<open>false\<close>, \<^verbatim>\<open>true\<close>) and of the
  optional numeric weight \<^verbatim>\<open>isPrimaryUserID\<close>; \<open>to_number\<close> is JavaScript's
  conversion in \<^verbatim>\<open><\<close> and \<^verbatim>\<open>-\<close>, which reads \<^verbatim>\<open>null\<close> as 0.\<close>

definition truthy :: "bool option \<Rightarrow> bool" where
  "truthy b = (b = Some True)"

definition truthy_number :: "nat option \<Rightarrow> bool" where
  "truthy_number n = (case n of None \<Rightarrow> False | Some m \<Rightarrow> m \<noteq> 0)"

definition to_number :: "nat option \<Rightarrow> int" where
  "to_number n = (case n of None \<Rightarrow> 0 | Some m \<Rightarrow> int m)"

text \<open>Modelled from the spec: \<^verbatim>\<open>Signature.prototype.verify\<close> is not under \<^verbatim>\<open>src/\<close>;
  the spec has it verify ``lazily, caching the verified flag''. \<open>cached_verify\<close> is the
  expression \<^verbatim>\<open>sig.verified || await sig.verify(key, data)\<close>: its value and the
  signature afterwards.\<close>

definition cached_verify :: "ext \<Rightarrow> signature \<Rightarrow> keypacket \<Rightarrow> dataToVerify \<Rightarrow> bool \<times> signature" where
  "cached_verify env s k d =
     (if truthy (verified s) then (True, s)
      else (verify env s k d, s\<lparr>verified := Some (verify env s k d)\<rparr>))"

section \<open>Revocation and expiration: \<^verbatim>\<open>isDataRevoked\<close>, \<^verbatim>\<open>getExpirationTime\<close>, \<^verbatim>\<open>isDataExpired\<close>\<close>

text \<open>One callback of \<^verbatim>\<open>revocations.map\<close>: whether the revocation's issuer is pushed onto
  \<^verbatim>\<open>revocationKeyIds\<close>, and the revocation signature afterwards.\<close>

definition check_revocation ::
  "ext \<Rightarrow> keypacket \<Rightarrow> dataToVerify \<Rightarrow> int option \<Rightarrow> signature \<Rightarrow> bool \<times> signature" where
  "check_revocation env k d normDate r =
     (if revocations_expire (config env) \<and> isExpired env r normDate then (False, r)
      else cached_verify env r k d)"

text \<open>\<^verbatim>\<open>isDataRevoked(primaryKey, dataToVerify, revocations, signature, key, date)\<close>. The
  result is the returned value (\<^verbatim>\<open>signature.revoked\<close> may still be \<^verbatim>\<open>null\<close>), the
  revocation signatures and the target signature afterwards.\<close>

definition isDataRevoked ::
  "ext \<Rightarrow> keypacket \<Rightarrow> dataToVerify \<Rightarrow> signature list \<Rightarrow> signature option \<Rightarrow>
   keypacket option \<Rightarrow> int option \<Rightarrow> bool option \<times> signature list \<times> signature option" where
  "isDataRevoked env pKey d revocations sig k date =
     (let k' = (case k of None \<Rightarrow> pKey | Some x \<Rightarrow> x);
          normDate = normalizeDate date;
          checked = map (check_revocation env k' d normDate) revocations;
          revocationKeyIds = map (\<lambda>c. issuerKeyId (snd c)) (filter fst checked)
      in case sig of
           Some s \<Rightarrow>
             (let s' = s\<lparr>revoked :=
                         (if list_ex (\<lambda>keyId. keyId = issuerKeyId s) revocationKeyIds
                          then Some True else revoked s)\<rparr>
              in (revoked s', map snd checked, Some s'))
         | None \<Rightarrow> (Some (revocationKeyIds \<noteq> []), map snd checked, None))"

text \<open>An expiration time is a \<^verbatim>\<open>Date\<close> or \<^verbatim>\<open>Infinity\<close>. \<^verbatim>\<open>new Date(t)\<close> is an
  invalid date when \<open>t\<close> is more than 8.64e15 milliseconds from the epoch, and a
  comparison with an invalid date is false. The creation times that packets carry and
  the date of an evaluation are valid dates, in milliseconds.\<close>

datatype exptime = Finite int | Infinity | InvalidDate

fun before :: "int \<Rightarrow> exptime \<Rightarrow> bool" where
  "before t (Finite e) = (t < e)"
| "before t Infinity = True"
| "before t InvalidDate = False"

text \<open>\<^verbatim>\<open>expirationTime ? new Date(expirationTime) : Infinity\<close>.\<close>

definition date_or_infinity :: "int option \<Rightarrow> exptime" where
  "date_or_infinity e =
     (case e of
        None \<Rightarrow> Infinity
      | Some t \<Rightarrow>
          if t = 0 then Infinity
          else if 8640000000000000 < \<bar>t\<bar> then InvalidDate
          else Finite t)"

text \<open>\<^verbatim>\<open>getExpirationTime(keyPacket, signature)\<close>. Reading \<^verbatim>\<open>signature.keyNeverExpires\<close>
  of a \<^verbatim>\<open>null\<close> signature is a \<^verbatim>\<open>TypeError\<close>; \<^verbatim>\<open>null * 1000\<close> is 0.\<close>

definition getExpirationTime :: "keypacket \<Rightarrow> signature option \<Rightarrow> jserror + exptime" where
  "getExpirationTime keyPacket sig =
     (let v3 = (if version keyPacket = 3 \<and> expirationTimeV3 keyPacket \<noteq> 0
                then Some (created keyPacket + int (expirationTimeV3 keyPacket) * 24 * 3600 * 1000)
                else None)
      in if version keyPacket = 4 then
           (case sig of
              None \<Rightarrow> Inl TypeError
            | Some s \<Rightarrow>
                if keyNeverExpires s = Some False
                then Inr (date_or_infinity
                       (Some (sig_created s + to_number (keyExpirationTime s) * 1000)))
                else Inr (date_or_infinity v3))
         else Inr (date_or_infinity v3))"

text \<open>\<^verbatim>\<open>isDataExpired(keyPacket, signature, date)\<close>, as a truth value:
  \<^verbatim>\<open>!(created <= normDate && normDate < expirationTime) || (signature &&
  signature.isExpired(date))\<close> is the second disjunct when the first is false, and
  true otherwise.\<close>

definition isDataExpired :: "ext \<Rightarrow> keypacket \<Rightarrow> signature option \<Rightarrow> int option \<Rightarrow> jserror + bool" where
  "isDataExpired env keyPacket sig date =
     (case normalizeDate date of
        None \<Rightarrow> Inr False
      | Some normDate \<Rightarrow>
          (case getExpirationTime keyPacket sig of
             Inl e \<Rightarrow> Inl e
           | Inr expirationTime \<Rightarrow>
               if created keyPacket \<le> normDate \<and> before normDate expirationTime
               then Inr (case sig of None \<Rightarrow> False | Some s \<Rightarrow> isExpired env s date)
               else Inr True))"

section \<open>Primary-user selector: \<^verbatim>\<open>Key.prototype.getPrimaryUser\<close>\<close>

text \<open>
  The locals of \<^verbatim>\<open>getPrimaryUser\<close>. An element \<^verbatim>\<open>{index: i, user, selfCertification}\<close>
  of \<^verbatim>\<open>primaryUsers\<close> holds references; it is kept as the positions \<open>(i, j)\<close> of the
  user and of the certificate and read from the key when the loops are over.
\<close>

record primary_user_locals =
  primaryUsers :: "(nat \<times> nat) list"
  lastCreated :: "int option"
  lastPrimaryUserID :: "nat option"

record primary_user =
  index :: nat
  user :: user
  selfCertification :: signature

text \<open>The guard ``skip if certificate is not the most recent''. \<^verbatim>\<open>cert.created < null\<close>
  compares with 0.\<close>

definition not_most_recent :: "signature \<Rightarrow> primary_user_locals \<Rightarrow> bool" where
  "not_most_recent cert L =
     ((truthy_number (isPrimaryUserID cert) \<and>
         to_number (isPrimaryUserID cert) < to_number (lastPrimaryUserID L))
      \<or> (\<not> truthy_number (lastPrimaryUserID L) \<and>
          sig_created cert < (case lastCreated L of None \<Rightarrow> 0 | Some c \<Rightarrow> c)))"

text \<open>The body of the inner loop for certificate \<open>j\<close> of user \<open>i\<close>: the certificate, the
  user's revocation signatures and the locals afterwards. \<^verbatim>\<open>user.isRevoked(primaryKey,
  cert, null, date)\<close> is \<^verbatim>\<open>isDataRevoked\<close> over the user's revocation signatures.\<close>

definition selfCertification_body ::
  "ext \<Rightarrow> keypacket \<Rightarrow> userpacket \<Rightarrow> int option \<Rightarrow> nat \<Rightarrow> nat \<Rightarrow> signature \<Rightarrow>
   signature list \<Rightarrow> primary_user_locals \<Rightarrow> signature \<times> signature list \<times> primary_user_locals" where
  "selfCertification_body env pKey uid date i j cert revs L =
     (let dataToVerify = \<lparr> d_key = Some pKey, d_userid = Some uid, d_bind = None \<rparr> in
      if not_most_recent cert L then (cert, revs, L)
      else
        (case cached_verify env cert pKey dataToVerify of
           (ok, cert1) \<Rightarrow>
             if ok then
               (if truthy (revoked cert1) then (cert1, revs, L)
                else
                  (case isDataRevoked env pKey dataToVerify revs (Some cert1) None date of
                     (r, revs', c2) \<Rightarrow>
                       (let cert2 = (case c2 of Some c \<Rightarrow> c | None \<Rightarrow> cert1) in
                        if truthy r then (cert2, revs', L)
                        else if isExpired env cert2 date then (cert2, revs', L)
                        else (cert2, revs',
                              \<lparr> primaryUsers = primaryUsers L @ [(i, j)],
                                lastCreated = Some (sig_created cert2),
                                lastPrimaryUserID = isPrimaryUserID cert2 \<rparr>))))
             else (cert1, revs, L)))"

fun selfCertifications_loop ::
  "ext \<Rightarrow> keypacket \<Rightarrow> userpacket \<Rightarrow> int option \<Rightarrow> nat \<Rightarrow> nat \<Rightarrow> signature list \<Rightarrow>
   signature list \<Rightarrow> primary_user_locals \<Rightarrow> signature list \<times> signature list \<times> primary_user_locals" where
  "selfCertifications_loop env pKey uid date i j [] revs L = ([], revs, L)"
| "selfCertifications_loop env pKey uid date i j (cert # certs) revs L =
     (case selfCertification_body env pKey uid date i j cert revs L of
        (cert', revs', L') \<Rightarrow>
          (case selfCertifications_loop env pKey uid date i (Suc j) certs revs' L' of
             (certs', revs'', L'') \<Rightarrow> (cert' # certs', revs'', L'')))"

text \<open>The outer loop from user \<open>i\<close> on. \<open>None\<close> is the \<^verbatim>\<open>return;\<close> taken at a user with
  no \<^verbatim>\<open>userId\<close>.\<close>

fun users_loop ::
  "ext \<Rightarrow> keypacket \<Rightarrow> int option \<Rightarrow> nat \<Rightarrow> user list \<Rightarrow> primary_user_locals \<Rightarrow>
   primary_user_locals option \<times> user list" where
  "users_loop env pKey date i [] L = (Some L, [])"
| "users_loop env pKey date i (u # us) L =
     (case userId u of
        None \<Rightarrow> (None, u # us)
      | Some uid \<Rightarrow>
          (case selfCertifications_loop env pKey uid date i 0 (selfCertifications u)
                  (u_revocationSignatures u) L of
             (certs', revs', L') \<Rightarrow>
               (case users_loop env pKey date (Suc i) us L' of
                  (r, us') \<Rightarrow>
                    (r, u\<lparr>selfCertifications := certs', u_revocationSignatures := revs'\<rparr> # us'))))"

text \<open>\<^verbatim>\<open>Array.prototype.sort\<close> with a comparison function, as a stable insertion sort:
  \<open>a\<close> goes before \<open>b\<close> when \<open>compare a b \<le> 0\<close>.\<close>

fun js_insert :: "('a \<Rightarrow> 'a \<Rightarrow> int) \<Rightarrow> 'a \<Rightarrow> 'a list \<Rightarrow> 'a list" where
  "js_insert compare x [] = [x]"
| "js_insert compare x (y # ys) =
     (if compare x y \<le> 0 then x # y # ys else y # js_insert compare x ys)"

definition js_sort :: "('a \<Rightarrow> 'a \<Rightarrow> int) \<Rightarrow> 'a list \<Rightarrow> 'a list" where
  "js_sort compare xs = foldr (js_insert compare) xs []"

text \<open>\<^verbatim>\<open>(B.isPrimaryUserID - A.isPrimaryUserID) || (B.created - A.created)\<close>.\<close>

definition primary_user_compare :: "primary_user \<Rightarrow> primary_user \<Rightarrow> int" where
  "primary_user_compare a b =
     (let A = selfCertification a; B = selfCertification b;
          d = to_number (isPrimaryUserID B) - to_number (isPrimaryUserID A)
      in if d \<noteq> 0 then d else sig_created B - sig_created A)"

text \<open>\<^verbatim>\<open>getPrimaryUser(date)\<close>: the returned element (\<open>None\<close> for \<^verbatim>\<open>undefined\<close>) and the
  key afterwards. \<^verbatim>\<open>primaryUsers.pop()\<close> takes the last element of the sorted array.\<close>

definition getPrimaryUser :: "ext \<Rightarrow> key \<Rightarrow> int option \<Rightarrow> primary_user option \<times> key" where
  "getPrimaryUser env k date =
     (case users_loop env (primaryKey k) date 0 (users k)
             \<lparr> primaryUsers = [], lastCreated = None, lastPrimaryUserID = None \<rparr> of
        (r, us') \<Rightarrow>
          (case r of
             None \<Rightarrow> (None, k\<lparr>users := us'\<rparr>)
           | Some L \<Rightarrow>
               (let sorted = js_sort primary_user_compare
                      (map (\<lambda>(i, j). \<lparr> index = i, user = us' ! i,
                                       selfCertification = selfCertifications (us' ! i) ! j \<rparr>)
                           (primaryUsers L))
                in (if sorted = [] then None else Some (last sorted), k\<lparr>users := us'\<rparr>))))"

section \<open>Validation: \<^verbatim>\<open>verifyPrimaryKey\<close> and \<^verbatim>\<open>SubKey.prototype.verify\<close>\<close>

text \<open>\<^verbatim>\<open>Key.prototype.verifyPrimaryKey(date)\<close>; \<^verbatim>\<open>this.isRevoked(null, null, date)\<close> is
  \<^verbatim>\<open>isDataRevoked\<close> over the key's revocation signatures with no target signature.\<close>

definition verifyPrimaryKey :: "ext \<Rightarrow> key \<Rightarrow> int option \<Rightarrow> (jserror + keyStatus) \<times> key" where
  "verifyPrimaryKey env k date =
     (let pKey = primaryKey k in
      case isDataRevoked env pKey \<lparr> d_key = Some pKey, d_userid = None, d_bind = None \<rparr>
             (revocationSignatures k) None None date of
        (r, revs', _) \<Rightarrow>
          (let k1 = k\<lparr>revocationSignatures := revs'\<rparr> in
           if truthy r then (Inr KS_revoked, k1)
           else if list_ex (\<lambda>u. userId u \<noteq> None \<and> selfCertifications u \<noteq> []) (users k1) then
             (case getPrimaryUser env k1 date of
                (None, k2) \<Rightarrow> (Inr KS_invalid, k2)
              | (Some p, k2) \<Rightarrow>
                  if version pKey = 3 then
                    (case isDataExpired env pKey None date of
                       Inl e \<Rightarrow> (Inl e, k2)
                     | Inr b \<Rightarrow> (Inr (if b then KS_expired else KS_valid), k2))
                  else if version pKey = 4 then
                    (case isDataExpired env pKey (Some (selfCertification p)) date of
                       Inl e \<Rightarrow> (Inl e, k2)
                     | Inr b \<Rightarrow> (Inr (if b then KS_expired else KS_valid), k2))
                  else (Inr KS_valid, k2))
           else (Inr KS_no_self_cert, k1)))"

text \<open>One callback of \<^verbatim>\<open>this.bindingSignatures.map\<close> in \<^verbatim>\<open>SubKey.prototype.verify\<close>: its
  status, the binding signature and the subkey's revocation signatures afterwards.\<close>

definition verify_binding ::
  "ext \<Rightarrow> keypacket \<Rightarrow> keypacket \<Rightarrow> int option \<Rightarrow> signature \<Rightarrow> signature list \<Rightarrow>
   keyStatus \<times> signature \<times> signature list" where
  "verify_binding env pKey sub date b revs =
     (let dataToVerify = \<lparr> d_key = Some pKey, d_userid = None, d_bind = Some sub \<rparr> in
      case cached_verify env b pKey dataToVerify of
        (ok, b1) \<Rightarrow>
          if ok then
            (if truthy (revoked b1) then (KS_revoked, b1, revs)
             else
               (case isDataRevoked env pKey dataToVerify revs (Some b1) None date of
                  (r, revs', c2) \<Rightarrow>
                    (let b2 = (case c2 of Some c \<Rightarrow> c | None \<Rightarrow> b1) in
                     if truthy r then (KS_revoked, b2, revs')
                     else if isExpired env b2 date then (KS_expired, b2, revs')
                     else (KS_valid, b2, revs'))))
          else (KS_invalid, b1, revs))"

fun verify_bindings ::
  "ext \<Rightarrow> keypacket \<Rightarrow> keypacket \<Rightarrow> int option \<Rightarrow> signature list \<Rightarrow> signature list \<Rightarrow>
   keyStatus list \<times> signature list \<times> signature list" where
  "verify_bindings env pKey sub date [] revs = ([], [], revs)"
| "verify_bindings env pKey sub date (b # bs) revs =
     (case verify_binding env pKey sub date b revs of
        (st, b', revs') \<Rightarrow>
          (case verify_bindings env pKey sub date bs revs' of
             (sts, bs', revs'') \<Rightarrow> (st # sts, b' # bs', revs'')))"

text \<open>\<^verbatim>\<open>SubKey.prototype.verify(primaryKey, date)\<close>: the status and the subkey afterwards.
  \<^verbatim>\<open>results\<close> starts with \<^verbatim>\<open>invalid\<close>, so \<^verbatim>\<open>results.pop()\<close> is its last element.\<close>

definition SubKey_verify ::
  "ext \<Rightarrow> subkey \<Rightarrow> keypacket \<Rightarrow> int option \<Rightarrow> (jserror + keyStatus) \<times> subkey" where
  "SubKey_verify env sk pKey date =
     (case (if version (subKey sk) = 3 then isDataExpired env (subKey sk) None date
            else Inr False) of
        Inl e \<Rightarrow> (Inl e, sk)
      | Inr expiredV3 \<Rightarrow>
          if expiredV3 then (Inr KS_expired, sk)
          else
            (case verify_bindings env pKey (subKey sk) date (bindingSignatures sk)
                    (s_revocationSignatures sk) of
               (sts, bs', revs') \<Rightarrow>
                 (let results = KS_invalid # sts in
                  (Inr (if list_ex (\<lambda>status. status = KS_valid) results
                        then KS_valid else last results),
                   sk\<lparr>bindingSignatures := bs', s_revocationSignatures := revs'\<rparr>))))"

section \<open>Operation selector: \<^verbatim>\<open>getSigningKeyPacket\<close> and \<^verbatim>\<open>getEncryptionKeyPacket\<close>\<close>

text \<open>\<^verbatim>\<open>signature.keyFlags[0]\<close>, read as a number by \<^verbatim>\<open>&\<close>: 0 when the array is empty.\<close>

definition keyFlags0 :: "signature \<Rightarrow> nat" where
  "keyFlags0 s = (case keyFlags s of Some (f # fs) \<Rightarrow> f | _ \<Rightarrow> 0)"

definition isValidSigningKeyPacket ::
  "ext \<Rightarrow> keypacket \<Rightarrow> signature \<Rightarrow> int option \<Rightarrow> jserror + bool" where
  "isValidSigningKeyPacket env keyPacket s date =
     (if algorithm keyPacket \<noteq> rsa_encrypt \<and>
         algorithm keyPacket \<noteq> elgamal \<and>
         algorithm keyPacket \<noteq> ecdh \<and>
         (keyFlags s = None \<or> keyFlags0 s AND keyFlags_sign_data (enums env) \<noteq> 0) \<and>
         truthy (verified s) \<and> \<not> truthy (revoked s) \<and> \<not> isExpired env s date
      then (case isDataExpired env keyPacket (Some s) date of
              Inl e \<Rightarrow> Inl e
            | Inr b \<Rightarrow> Inr (\<not> b))
      else Inr False)"

definition isValidEncryptionKeyPacket ::
  "ext \<Rightarrow> keypacket \<Rightarrow> signature \<Rightarrow> int option \<Rightarrow> jserror + bool" where
  "isValidEncryptionKeyPacket env keyPacket s date =
     (if algorithm keyPacket \<noteq> dsa \<and>
         algorithm keyPacket \<noteq> rsa_sign \<and>
         algorithm keyPacket \<noteq> ecdsa \<and>
         algorithm keyPacket \<noteq> eddsa \<and>
         (keyFlags s = None \<or>
          keyFlags0 s AND keyFlags_encrypt_communication (enums env) \<noteq> 0 \<or>
          keyFlags0 s AND keyFlags_encrypt_storage (enums env) \<noteq> 0) \<and>
         truthy (verified s) \<and> \<not> truthy (revoked s) \<and> \<not> isExpired env s date
      then (case isDataExpired env keyPacket (Some s) date of
              Inl e \<Rightarrow> Inl e
            | Inr b \<Rightarrow> Inr (\<not> b))
      else Inr False)"

text \<open>The inner \<^verbatim>\<open>for (j ...)\<close> loop over the binding signatures of one subkey: whether
  some binding signature makes the subkey packet valid for the operation.\<close>

fun some_binding_valid ::
  "(keypacket \<Rightarrow> signature \<Rightarrow> int option \<Rightarrow> jserror + bool) \<Rightarrow> keypacket \<Rightarrow> int option \<Rightarrow>
   signature list \<Rightarrow> jserror + bool" where
  "some_binding_valid isValid sub date [] = Inr False"
| "some_binding_valid isValid sub date (b # bs) =
     (case isValid sub b date of
        Inl e \<Rightarrow> Inl e
      | Inr ok \<Rightarrow> if ok then Inr True else some_binding_valid isValid sub date bs)"

text \<open>The \<^verbatim>\<open>for (i ...)\<close> loop over \<^verbatim>\<open>this.subKeys\<close>, shared by the two selectors up to
  the validity test: the returned packet and the subkeys afterwards.\<close>

fun subKeys_loop ::
  "ext \<Rightarrow> (keypacket \<Rightarrow> signature \<Rightarrow> int option \<Rightarrow> jserror + bool) \<Rightarrow> keypacket \<Rightarrow>
   keyid option \<Rightarrow> int option \<Rightarrow> subkey list \<Rightarrow> (jserror + keypacket option) \<times> subkey list" where
  "subKeys_loop env isValid pKey keyId date [] = (Inr None, [])"
| "subKeys_loop env isValid pKey keyId date (sk # sks) =
     (if keyId = None \<or> Some (getKeyId (subKey sk)) = keyId then
        (case SubKey_verify env sk pKey date of
           (Inl e, sk') \<Rightarrow> (Inl e, sk' # sks)
         | (Inr status, sk') \<Rightarrow>
             (case some_binding_valid isValid (subKey sk') date (bindingSignatures sk') of
                Inl e \<Rightarrow> (Inl e, sk' # sks)
              | Inr found \<Rightarrow>
                  if found then (Inr (Some (subKey sk')), sk' # sks)
                  else (case subKeys_loop env isValid pKey keyId date sks of
                          (r, sks') \<Rightarrow> (r, sk' # sks'))))
      else (case subKeys_loop env isValid pKey keyId date sks of
              (r, sks') \<Rightarrow> (r, sk # sks')))"

text \<open>The test on the primary key, shared by the two selectors (\<open>pKey\<close> is the
  \<^verbatim>\<open>const primaryKey\<close> taken at the start): \<^verbatim>\<open>primaryUser && (!keyId
  || primaryKey.getKeyId().equals(keyId)) && isValid...KeyPacket(primaryKey,
  primaryUser.selfCertification, date) && await this.verifyPrimaryKey(date)\<close>. The status
  that \<^verbatim>\<open>verifyPrimaryKey\<close> returns is tested for truthiness, so it is its number that
  counts.\<close>

definition primaryKey_usable ::
  "ext \<Rightarrow> (keypacket \<Rightarrow> signature \<Rightarrow> int option \<Rightarrow> jserror + bool) \<Rightarrow> key \<Rightarrow>
   keyid option \<Rightarrow> int option \<Rightarrow> (jserror + bool) \<times> key" where
  "primaryKey_usable env isValid k keyId date =
     (let pKey = primaryKey k in
      case getPrimaryUser env k date of
        (None, k1) \<Rightarrow> (Inr False, k1)
      | (Some p, k1) \<Rightarrow>
          if keyId = None \<or> Some (getKeyId pKey) = keyId then
            (case isValid pKey (selfCertification p) date of
               Inl e \<Rightarrow> (Inl e, k1)
             | Inr ok \<Rightarrow>
                 if ok then
                   (case verifyPrimaryKey env k1 date of
                      (Inl e, k2) \<Rightarrow> (Inl e, k2)
                    | (Inr status, k2) \<Rightarrow> (Inr (keyStatus_number (enums env) status \<noteq> 0), k2))
                 else (Inr False, k1))
          else (Inr False, k1))"

text \<open>\<^verbatim>\<open>getSigningKeyPacket(keyId, date)\<close>: the primary key first, then the subkeys.\<close>

definition getSigningKeyPacket ::
  "ext \<Rightarrow> key \<Rightarrow> keyid option \<Rightarrow> int option \<Rightarrow> (jserror + keypacket option) \<times> key" where
  "getSigningKeyPacket env k keyId date =
     (let pKey = primaryKey k in
      case primaryKey_usable env (isValidSigningKeyPacket env) k keyId date of
        (Inl e, k1) \<Rightarrow> (Inl e, k1)
      | (Inr usable, k1) \<Rightarrow>
          if usable then (Inr (Some pKey), k1)
          else (case subKeys_loop env (isValidSigningKeyPacket env) pKey keyId date
                       (subKeys k1) of
                  (r, sks') \<Rightarrow> (r, k1\<lparr>subKeys := sks'\<rparr>)))"

text \<open>\<^verbatim>\<open>getEncryptionKeyPacket(keyId, date)\<close>: the subkeys first, then the primary key.\<close>

definition getEncryptionKeyPacket ::
  "ext \<Rightarrow> key \<Rightarrow> keyid option \<Rightarrow> int option \<Rightarrow> (jserror + keypacket option) \<times> key" where
  "getEncryptionKeyPacket env k keyId date =
     (let pKey = primaryKey k in
      case subKeys_loop env (isValidEncryptionKeyPacket env) pKey keyId date (subKeys k) of
        (Inl e, sks') \<Rightarrow> (Inl e, k\<lparr>subKeys := sks'\<rparr>)
      | (Inr (Some p), sks') \<Rightarrow> (Inr (Some p), k\<lparr>subKeys := sks'\<rparr>)
      | (Inr None, sks') \<Rightarrow>
          (case primaryKey_usable env (isValidEncryptionKeyPacket env) (k\<lparr>subKeys := sks'\<rparr>)
                  keyId date of
             (Inl e, k1) \<Rightarrow> (Inl e, k1)
           | (Inr usable, k1) \<Rightarrow> (Inr (if usable then Some pKey else None), k1)))"

section \<open>Merge engine: \<^verbatim>\<open>mergeSignatures\<close>, \<^verbatim>\<open>SubKey.prototype.update\<close>, \<^verbatim>\<open>Key.prototype.update\<close>\<close>

text \<open>
  \<^verbatim>\<open>mergeSignatures(source, dest, attr, checkFn)\<close> on the two arrays \<^verbatim>\<open>source[attr]\<close> and
  \<^verbatim>\<open>dest[attr]\<close>. With an empty destination the source array is adopted as it is.
  Otherwise every callback of \<^verbatim>\<open>source.map\<close> runs up to its \<^verbatim>\<open>await checkFn(sourceSig)\<close>
  before any callback goes on to the duplicate test and the \<^verbatim>\<open>push\<close>: an \<^verbatim>\<open>await\<close>
  always yields. So all checks come first, in source order, and the pushes follow, in
  source order. A check function gets the source signature and the destination array
  and returns its answer, the source signature and the destination array afterwards
  (the check of \<^verbatim>\<open>SubKey.prototype.update\<close> writes into the destination). The model
  takes a check to run to its end when it is called, which it does when the signatures
  it verifies have their \<^verbatim>\<open>verified\<close> flag cached. \<^verbatim>\<open>sourceSig.isExpired()\<close> is asked
  at \<^verbatim>\<open>new Date()\<close>.
\<close>

type_synonym checkFn = "signature \<Rightarrow> signature list \<Rightarrow> bool \<times> signature \<times> signature list"

fun merge_checks ::
  "ext \<Rightarrow> checkFn option \<Rightarrow> signature list \<Rightarrow> signature list \<Rightarrow>
   (bool \<times> signature) list \<times> signature list" where
  "merge_checks env checkFn [] dest = ([], dest)"
| "merge_checks env checkFn (sourceSig # source) dest =
     (if isExpired env sourceSig (Some (now env)) then
        (case merge_checks env checkFn source dest of
           (rs, dest') \<Rightarrow> ((False, sourceSig) # rs, dest'))
      else
        (case checkFn of
           None \<Rightarrow>
             (case merge_checks env checkFn source dest of
                (rs, dest') \<Rightarrow> ((True, sourceSig) # rs, dest'))
         | Some f \<Rightarrow>
             (case f sourceSig dest of
                (ok, sourceSig', dest1) \<Rightarrow>
                  (case merge_checks env checkFn source dest1 of
                     (rs, dest') \<Rightarrow> ((ok, sourceSig') # rs, dest')))))"

text \<open>The continuations: \<^verbatim>\<open>!dest[attr].some(equal raw bytes)\<close> and \<^verbatim>\<open>dest[attr].push\<close>.\<close>

fun merge_pushes :: "(bool \<times> signature) list \<Rightarrow> signature list \<Rightarrow> signature list" where
  "merge_pushes [] dest = dest"
| "merge_pushes ((ok, sourceSig) # rs) dest =
     (if ok \<and> \<not> list_ex (\<lambda>destSig. sig_bytes destSig = sig_bytes sourceSig) dest
      then merge_pushes rs (dest @ [sourceSig])
      else merge_pushes rs dest)"

text \<open>The result is the source array and the destination array afterwards.\<close>

definition mergeSignatures ::
  "ext \<Rightarrow> signature list \<Rightarrow> signature list \<Rightarrow> checkFn option \<Rightarrow>
   signature list \<times> signature list" where
  "mergeSignatures env source dest checkFn =
     (if dest = [] then (source, source)
      else (case merge_checks env checkFn source dest of
              (rs, dest') \<Rightarrow> (map snd rs, merge_pushes rs dest')))"

text \<open>The \<^verbatim>\<open>for\<close> loop in the check of \<^verbatim>\<open>SubKey.prototype.update\<close>: at the first
  destination binding signature of the same issuer that was created after the source
  one, the source signature is written over it and the check returns \<^verbatim>\<open>false\<close>
  (\<open>Some\<close> of the array afterwards); \<open>None\<close> when the loop runs out.\<close>

fun overwrite_binding :: "signature \<Rightarrow> signature list \<Rightarrow> signature list option" where
  "overwrite_binding srcBindSig [] = None"
| "overwrite_binding srcBindSig (d # ds) =
     (if issuerKeyId d = issuerKeyId srcBindSig \<and> sig_created srcBindSig < sig_created d
      then Some (srcBindSig # ds)
      else map_option (\<lambda>ds'. d # ds') (overwrite_binding srcBindSig ds))"

definition binding_checkFn :: "ext \<Rightarrow> keypacket \<Rightarrow> dataToVerify \<Rightarrow> checkFn" where
  "binding_checkFn env pKey dataToVerify srcBindSig dest =
     (case cached_verify env srcBindSig pKey dataToVerify of
        (ok, s1) \<Rightarrow>
          if ok then
            (case overwrite_binding s1 dest of
               Some dest' \<Rightarrow> (False, s1, dest')
             | None \<Rightarrow> (True, s1, dest))
          else (False, s1, dest))"

text \<open>The check of the two revocation merges:
  \<^verbatim>\<open>isDataRevoked(primaryKey, dataToVerify, [srcRevSig], null, key)\<close> at \<^verbatim>\<open>new Date()\<close>.\<close>

definition revocation_checkFn ::
  "ext \<Rightarrow> keypacket \<Rightarrow> dataToVerify \<Rightarrow> keypacket option \<Rightarrow> checkFn" where
  "revocation_checkFn env pKey dataToVerify k srcRevSig dest =
     (case isDataRevoked env pKey dataToVerify [srcRevSig] None k (Some (now env)) of
        (r, revs', _) \<Rightarrow> (truthy r, (case revs' of s' # _ \<Rightarrow> s' | [] \<Rightarrow> srcRevSig), dest))"

text \<open>\<^verbatim>\<open>SubKey.prototype.update(subKey, primaryKey)\<close> on the destination \<open>this\<close> and the
  source \<open>src\<close>: how it ended, and both subkeys afterwards.\<close>

definition SubKey_update ::
  "ext \<Rightarrow> subkey \<Rightarrow> subkey \<Rightarrow> keypacket \<Rightarrow> (jserror + unit) \<times> subkey \<times> subkey" where
  "SubKey_update env this src pKey =
     (case SubKey_verify env src pKey (Some (now env)) of
        (Inl e, src1) \<Rightarrow> (Inl e, this, src1)
      | (Inr status, src1) \<Rightarrow>
          if keyStatus_number (enums env) status = keyStatus_number (enums env) KS_invalid
          then (Inr (), this, src1)
          else if getFingerprint (subKey this) \<noteq> getFingerprint (subKey src1)
          then (Inl (Error ''SubKey update method: fingerprints of subkeys not equal''),
                this, src1)
          else
            (let this1 = (if tag (subKey this) = T_publicSubkey \<and>
                             tag (subKey src1) = T_secretSubkey
                          then this\<lparr>subKey := subKey src1\<rparr> else this);
                 dataToVerify = \<lparr> d_key = Some pKey, d_userid = None,
                                  d_bind = Some (subKey this1) \<rparr>
             in case mergeSignatures env (bindingSignatures src1) (bindingSignatures this1)
                       (Some (binding_checkFn env pKey dataToVerify)) of
                  (srcBind, destBind) \<Rightarrow>
                    (case mergeSignatures env (s_revocationSignatures src1)
                            (s_revocationSignatures this1)
                            (Some (revocation_checkFn env pKey dataToVerify None)) of
                       (srcRev, destRev) \<Rightarrow>
                         (Inr (),
                          this1\<lparr>bindingSignatures := destBind,
                                s_revocationSignatures := destRev\<rparr>,
                          src1\<lparr>bindingSignatures := srcBind,
                               s_revocationSignatures := srcRev\<rparr>))))"

text \<open>
  \<^verbatim>\<open>Key.prototype.update(key)\<close> from its start to the merge of the direct signatures
  (lines 525 to 551), on the destination \<open>this\<close> and the source \<open>src\<close>. The statements
  that follow merge the users and the subkeys; they assign to \<^verbatim>\<open>users\<close>, \<^verbatim>\<open>subKeys\<close>
  and the members of their elements only, so \<^verbatim>\<open>revocationSignatures\<close> and
  \<^verbatim>\<open>directSignatures\<close> of the destination are final here, whether or not the rest
  throws. The result \<open>Inr True\<close> says that the update goes on to the users, \<open>Inr False\<close>
  that it returned at once. The check of the revocation merge is handed the
  destination \<^verbatim>\<open>Key\<close> itself as the data to verify, an object with none of the
  properties \<^verbatim>\<open>key\<close>, \<^verbatim>\<open>userid\<close>, \<^verbatim>\<open>bind\<close>, and the source's primary key as the
  verifying key.
\<close>

definition Key_update_signatures ::
  "ext \<Rightarrow> key \<Rightarrow> key \<Rightarrow> (jserror + bool) \<times> key \<times> key" where
  "Key_update_signatures env this src =
     (case verifyPrimaryKey env src (Some (now env)) of
        (Inl e, src1) \<Rightarrow> (Inl e, this, src1)
      | (Inr status, src1) \<Rightarrow>
          if keyStatus_number (enums env) status = keyStatus_number (enums env) KS_invalid
          then (Inr False, this, src1)
          else if getFingerprint (primaryKey this) \<noteq> getFingerprint (primaryKey src1)
          then (Inl (Error ''Key update method: fingerprints of keys not equal''), this, src1)
          else if tag (primaryKey this) = T_publicKey \<and> tag (primaryKey src1) = T_secretKey \<and>
                  \<not> (length (subKeys this) = length (subKeys src1) \<and>
                     list_all (\<lambda>destSubKey. list_ex (\<lambda>srcSubKey.
                          getFingerprint (subKey destSubKey) = getFingerprint (subKey srcSubKey))
                        (subKeys src1)) (subKeys this))
          then (Inl (Error ''Cannot update public key with private key if subkey mismatch''),
                this, src1)
          else
            (let this1 = (if tag (primaryKey this) = T_publicKey \<and>
                             tag (primaryKey src1) = T_secretKey
                          then this\<lparr>primaryKey := primaryKey src1\<rparr> else this)
             in case mergeSignatures env (revocationSignatures src1) (revocationSignatures this1)
                       (Some (revocation_checkFn env (primaryKey this1)
                                \<lparr> d_key = None, d_userid = None, d_bind = None \<rparr>
                                (Some (primaryKey src1)))) of
                  (srcRev, destRev) \<Rightarrow>
                    (case mergeSignatures env (directSignatures src1) (directSignatures this1)
                            None of
                       (srcDir, destDir) \<Rightarrow>
                         (Inr True,
                          this1\<lparr>revocationSignatures := destRev, directSignatures := destDir\<rparr>,
                          src1\<lparr>revocationSignatures := srcRev, directSignatures := srcDir\<rparr>))))"

section \<open>Curve registry: \<^verbatim>\<open>src/crypto/public_key/elliptic/curves.js\<close>\<close>

datatype cipher_name = aes128 | aes192 | aes256

record curve =
  curve_name :: string
  oid :: bytes
  keyType :: "pk_algorithm option"
  hash :: "hash_algo option"
  cipher :: "cipher_name option"
  payloadSize :: "nat option"

text \<open>The table \<^verbatim>\<open>curves\<close>; a property the source leaves out is \<open>None\<close>.\<close>

definition curves :: "curve list" where
  "curves =
     [ \<lparr> curve_name = ''p256'', oid = [0x2A, 0x86, 0x48, 0xCE, 0x3D, 0x03, 0x01, 0x07],
         keyType = Some ecdsa, hash = Some sha256, cipher = Some aes128,
         payloadSize = Some 32 \<rparr>,
       \<lparr> curve_name = ''p384'', oid = [0x2B, 0x81, 0x04, 0x00, 0x22],
         keyType = Some ecdsa, hash = Some sha384, cipher = Some aes192,
         payloadSize = Some 48 \<rparr>,
       \<lparr> curve_name = ''p521'', oid = [0x2B, 0x81, 0x04, 0x00, 0x23],
         keyType = Some ecdsa, hash = Some sha512, cipher = Some aes256,
         payloadSize = Some 66 \<rparr>,
       \<lparr> curve_name = ''secp256k1'', oid = [0x2B, 0x81, 0x04, 0x00, 0x0A],
         keyType = Some ecdsa, hash = Some sha256, cipher = Some aes128,
         payloadSize = None \<rparr>,
       \<lparr> curve_name = ''ed25519'', oid = [0x2B, 0x06, 0x01, 0x04, 0x01, 0xDA, 0x47, 0x0F, 0x01],
         keyType = Some eddsa, hash = Some sha512, cipher = None,
         payloadSize = Some 32 \<rparr>,
       \<lparr> curve_name = ''curve25519'',
         oid = [0x2B, 0x06, 0x01, 0x04, 0x01, 0x97, 0x55, 0x01, 0x05, 0x01],
         keyType = Some ecdsa, hash = Some sha256, cipher = Some aes128,
         payloadSize = None \<rparr>,
       \<lparr> curve_name = ''brainpoolP256r1'',
         oid = [0x2B, 0x24, 0x03, 0x03, 0x02, 0x08, 0x01, 0x01, 0x07],
         keyType = None, hash = None, cipher = None, payloadSize = None \<rparr>,
       \<lparr> curve_name = ''brainpoolP384r1'',
         oid = [0x2B, 0x24, 0x03, 0x03, 0x02, 0x08, 0x01, 0x01, 0x0B],
         keyType = None, hash = None, cipher = None, payloadSize = None \<rparr>,
       \<lparr> curve_name = ''brainpoolP512r1'',
         oid = [0x2B, 0x24, 0x03, 0x03, 0x02, 0x08, 0x01, 0x01, 0x0D],
         keyType = None, hash = None, cipher = None, payloadSize = None \<rparr> ]"

text \<open>\<^verbatim>\<open>getPreferredHashAlgo(oid)\<close> of \<^verbatim>\<open>curves.js\<close>:
  \<^verbatim>\<open>curves[enums.write(enums.curve, oid.toHex())].hash\<close>. The enum table is not under
  \<^verbatim>\<open>src/\<close>; the spec has the OID bytes as the key of a curve in it, so the curve is
  looked up by its \<open>oid\<close>, and \<^verbatim>\<open>enums.write\<close> throws for an OID of no curve.\<close>

definition curve_getPreferredHashAlgo :: "bytes \<Rightarrow> jserror + hash_algo option" where
  "curve_getPreferredHashAlgo oidBytes =
     (case find (\<lambda>c. oid c = oidBytes) curves of
        None \<Rightarrow> Inl (Error ''Invalid enum value.'')
      | Some c \<Rightarrow> Inr (hash c))"

section \<open>Preference negotiation: \<^verbatim>\<open>getPreferredHashAlgo\<close> and \<^verbatim>\<open>getPreferredSymAlgo\<close>\<close>

text \<open>\<^verbatim>\<open>crypto.hash.getHashByteLength(algo)\<close>, throwing where the hash module does.\<close>

definition hash_byte_length :: "ext \<Rightarrow> hash_algo option \<Rightarrow> jserror + nat" where
  "hash_byte_length env a =
     (case getHashByteLength env a of
        None \<Rightarrow> Inl (Error ''Invalid hash algorithm.'')
      | Some n \<Rightarrow> Inr n)"

text \<open>\<^verbatim>\<open>getHashByteLength(hash_algo) <= getHashByteLength(pref_algo) ? pref_algo :
  hash_algo\<close>.\<close>

definition longer_hash ::
  "ext \<Rightarrow> hash_algo option \<Rightarrow> hash_algo option \<Rightarrow> jserror + hash_algo option" where
  "longer_hash env hash_algo pref_algo =
     (case hash_byte_length env hash_algo of
        Inl e \<Rightarrow> Inl e
      | Inr n \<Rightarrow>
          (case hash_byte_length env pref_algo of
             Inl e \<Rightarrow> Inl e
           | Inr m \<Rightarrow> Inr (if n \<le> m then pref_algo else hash_algo)))"

text \<open>
  The argument of \<^verbatim>\<open>getPreferredHashAlgo(key)\<close> is a \<^verbatim>\<open>Key\<close> or a key packet. For a
  \<^verbatim>\<open>Key\<close> the variable \<^verbatim>\<open>key\<close> is then assigned \<^verbatim>\<open>key.getSigningKeyPacket(undefined,
  null)\<close> with no \<^verbatim>\<open>await\<close>: \<^verbatim>\<open>getSigningKeyPacket\<close> is an \<^verbatim>\<open>async\<close> function, so the
  variable holds a promise when \<^verbatim>\<open>switch (Object.getPrototypeOf(key))\<close> is reached.
  \<open>switch_value\<close> is the value of the variable at the switch.
\<close>

datatype hash_target = TargetKey key | TargetPacket keypacket

datatype switch_value = PendingPromise | PacketObject keypacket

text \<open>The \<^verbatim>\<open>switch\<close>: the prototype of a promise is none of the four packet prototypes,
  so no case is taken and \<^verbatim>\<open>pref_algo\<close> stays; a key packet of an elliptic-curve
  algorithm gets the preferred hash of the curve of \<^verbatim>\<open>key.params[0]\<close>.\<close>

definition prototype_switch ::
  "switch_value \<Rightarrow> hash_algo option \<Rightarrow> jserror + hash_algo option" where
  "prototype_switch v pref_algo =
     (case v of
        PendingPromise \<Rightarrow> Inr pref_algo
      | PacketObject p \<Rightarrow>
          if algorithm p = ecdh \<or> algorithm p = ecdsa \<or> algorithm p = eddsa
          then curve_getPreferredHashAlgo (params0 p)
          else Inr pref_algo)"

text \<open>The \<^verbatim>\<open>if (key instanceof Key)\<close> block: \<^verbatim>\<open>hash_algo\<close> and \<^verbatim>\<open>pref_algo\<close> after it.
  \<^verbatim>\<open>[pref_algo] = preferredHashAlgorithms\<close> of an empty array is \<^verbatim>\<open>undefined\<close>.\<close>

definition key_preference ::
  "ext \<Rightarrow> key \<Rightarrow> jserror + hash_algo option \<times> hash_algo option" where
  "key_preference env k =
     (let hash_algo = Some (prefer_hash_algorithm (config env)) in
      case fst (getPrimaryUser env k (Some (now env))) of
        None \<Rightarrow> Inr (hash_algo, hash_algo)
      | Some primaryUser \<Rightarrow>
          (case preferredHashAlgorithms (selfCertification primaryUser) of
             None \<Rightarrow> Inr (hash_algo, hash_algo)
           | Some prefs \<Rightarrow>
               (let pref_algo = (case prefs of [] \<Rightarrow> None | a # _ \<Rightarrow> Some a) in
                case longer_hash env hash_algo pref_algo of
                  Inl e \<Rightarrow> Inl e
                | Inr h \<Rightarrow> Inr (h, pref_algo))))"

definition getPreferredHashAlgo :: "ext \<Rightarrow> hash_target \<Rightarrow> jserror + hash_algo option" where
  "getPreferredHashAlgo env target =
     (case (case target of
              TargetKey k \<Rightarrow>
                (case key_preference env k of
                   Inl e \<Rightarrow> Inl e
                 | Inr (hash_algo, pref_algo) \<Rightarrow> Inr (hash_algo, pref_algo, PendingPromise))
            | TargetPacket p \<Rightarrow>
                Inr (Some (prefer_hash_algorithm (config env)),
                     Some (prefer_hash_algorithm (config env)), PacketObject p)) of
        Inl e \<Rightarrow> Inl e
      | Inr (hash_algo, pref_algo, v) \<Rightarrow>
          (case prototype_switch v pref_algo of
             Inl e \<Rightarrow> Inl e
           | Inr pref_algo' \<Rightarrow> longer_hash env hash_algo pref_algo'))"

text \<open>
  \<^verbatim>\<open>getPreferredSymAlgo(keys)\<close>. \<^verbatim>\<open>prioMap\<close> is an object whose property names are the
  algorithm numbers written as strings; \<^verbatim>\<open>for (const algo in prioMap)\<close> binds \<^verbatim>\<open>algo\<close>
  to such a string and visits integer-like names in ascending numeric order. A value
  is a number or the string of a number, and \<^verbatim>\<open>!==\<close> compares without conversion.
\<close>

datatype js_value = Number nat | String_of nat

definition strict_not_equal :: "js_value \<Rightarrow> js_value \<Rightarrow> bool" where
  "strict_not_equal a b = (a \<noteq> b)"

record prio_entry =
  prio :: nat
  count :: nat
  algo :: nat

text \<open>One call of the \<^verbatim>\<open>forEach\<close> callback; \<^verbatim>\<open>64 >> index\<close> shifts by \<open>index mod 32\<close>.\<close>

definition add_preference :: "(nat \<times> prio_entry) list \<Rightarrow> nat \<times> nat \<Rightarrow> (nat \<times> prio_entry) list" where
  "add_preference prioMap ai =
     (case ai of (a, i) \<Rightarrow>
        (let entry = (case map_of prioMap a of
                        None \<Rightarrow> \<lparr> prio = 0, count = 0, algo = a \<rparr>
                      | Some e \<Rightarrow> e)
         in AList.update a
              (entry\<lparr>prio := prio entry + drop_bit (i mod 32) 64, count := count entry + 1\<rparr>)
              prioMap))"

text \<open>One callback of \<^verbatim>\<open>keys.map\<close>: a key with no primary user or no preference list
  adds nothing (its \<^verbatim>\<open>return\<close> ends the callback only).\<close>

definition add_key_preferences :: "ext \<Rightarrow> (nat \<times> prio_entry) list \<Rightarrow> key \<Rightarrow> (nat \<times> prio_entry) list" where
  "add_key_preferences env prioMap k =
     (case fst (getPrimaryUser env k (Some (now env))) of
        None \<Rightarrow> prioMap
      | Some primaryUser \<Rightarrow>
          (case preferredSymmetricAlgorithms (selfCertification primaryUser) of
             None \<Rightarrow> prioMap
           | Some prefs \<Rightarrow> foldl add_preference prioMap (zip prefs [0 ..< length prefs])))"

text \<open>One iteration of the \<^verbatim>\<open>for ... in\<close> loop on the property name \<open>String_of a\<close>;
  \<^verbatim>\<open>enums.read\<close> turns the name back into the number, and its throw is caught.\<close>

definition consider_algo ::
  "ext \<Rightarrow> nat \<Rightarrow> (nat \<times> prio_entry) list \<Rightarrow> prio_entry \<Rightarrow> nat \<Rightarrow> prio_entry" where
  "consider_algo env n prioMap prefAlgo a =
     (case map_of prioMap a of
        None \<Rightarrow> prefAlgo
      | Some entry \<Rightarrow>
          if strict_not_equal (String_of a) (Number (symmetric_plaintext (enums env))) \<and>
             strict_not_equal (String_of a) (Number (symmetric_idea (enums env))) \<and>
             symmetric_known (enums env) a \<and>
             count entry = n \<and>
             prio entry > prio prefAlgo
          then entry else prefAlgo)"

definition getPreferredSymAlgo :: "ext \<Rightarrow> key list \<Rightarrow> nat" where
  "getPreferredSymAlgo env keys =
     (let prioMap = foldl (add_key_preferences env) [] keys;
          prefAlgo = \<lparr> prio = 0, count = 0, algo = encryption_cipher (config env) \<rparr>
      in algo (foldl (consider_algo env (length keys) prioMap) prefAlgo
                 (sort (map fst prioMap))))"

section \<open>Well-formed packet sequences\<close>

text \<open>
  The canonical order of a key's packets, as the serialisation writes them: the primary
  key packet; key revocations; direct signatures; then each user packet with its
  revocations, its self-certifications and its other certifications; then each subkey
  packet with its revocations and its binding signatures. A sequence is read by an
  automaton whose state is the part of that order it is in; a packet that does not
  belong to the current part or a later one is refused, and so is a packet the builder
  drops. A certification revocation ahead of the first user counts as a direct
  signature, as the builder files it.
\<close>

datatype phase = KeyRevs | DirectSigs | UserRevs | UserSelf | UserOther | SubRevs | SubBinds

definition canon_signature :: "keyid \<Rightarrow> phase \<Rightarrow> signature \<Rightarrow> phase option" where
  "canon_signature kid ph s =
     (if signatureType s = key_revocation then
        (if ph = KeyRevs then Some KeyRevs else None)
      else if signatureType s = sig_key then
        (if ph = KeyRevs \<or> ph = DirectSigs then Some DirectSigs else None)
      else if signatureType s = cert_revocation then
        (if ph = KeyRevs \<or> ph = DirectSigs then Some DirectSigs
         else if ph = UserRevs then Some UserRevs else None)
      else if is_certification (signatureType s) then
        (if issuerKeyId s = kid
         then (if ph = UserRevs \<or> ph = UserSelf then Some UserSelf else None)
         else (if ph = UserRevs \<or> ph = UserSelf \<or> ph = UserOther then Some UserOther else None))
      else if signatureType s = subkey_revocation then
        (if ph = SubRevs then Some SubRevs else None)
      else if signatureType s = subkey_binding then
        (if ph = SubRevs \<or> ph = SubBinds then Some SubBinds else None)
      else None)"

fun canon_step :: "keyid \<Rightarrow> phase \<Rightarrow> packet \<Rightarrow> phase option" where
  "canon_step kid ph (KeyPacket p) =
     (if (tag p = T_publicSubkey \<or> tag p = T_secretSubkey) \<and> ph \<noteq> KeyRevs \<and> ph \<noteq> DirectSigs
      then Some SubRevs else None)"
| "canon_step kid ph (UserPacket p) =
     (if ph = SubRevs \<or> ph = SubBinds then None else Some UserRevs)"
| "canon_step kid ph (SignaturePacket s) = canon_signature kid ph s"
| "canon_step kid ph (OtherPacket n) = None"

fun canon_run :: "keyid \<Rightarrow> phase \<Rightarrow> packet list \<Rightarrow> phase option" where
  "canon_run kid ph [] = Some ph"
| "canon_run kid ph (p # ps) =
     (case canon_step kid ph p of None \<Rightarrow> None | Some ph' \<Rightarrow> canon_run kid ph' ps)"

text \<open>Well-formed: one primary key packet, at the head; the rest in canonical order;
  at least one user.\<close>

fun well_formed :: "packet list \<Rightarrow> bool" where
  "well_formed (KeyPacket k # rest) =
     ((tag k = T_publicKey \<or> tag k = T_secretKey) \<and>
      (case canon_run (getKeyId k) KeyRevs rest of
         None \<Rightarrow> False
       | Some ph \<Rightarrow> ph \<noteq> KeyRevs \<and> ph \<noteq> DirectSigs))"
| "well_formed _ = False"

fun is_primary_packet :: "packet \<Rightarrow> bool" where
  "is_primary_packet (KeyPacket p) = (tag p = T_publicKey \<or> tag p = T_secretKey)"
| "is_primary_packet _ = False"

fun is_user_packet :: "packet \<Rightarrow> bool" where
  "is_user_packet (UserPacket p) = True"
| "is_user_packet _ = False"

text \<open>What the builder has read so far, written out in the order of \<open>toPacketlist\<close>,
  and the invariant that ties the builder's state to the automaton's.\<close>

definition ser :: "keypacket \<Rightarrow> build_state \<Rightarrow> packet list" where
  "ser pk st =
     KeyPacket pk
     # map SignaturePacket (b_revocationSignatures st)
     @ map SignaturePacket (b_directSignatures st)
     @ concat (map User_toPacketlist (b_users st))
     @ concat (map SubKey_toPacketlist (b_subKeys st))"

definition binv :: "keyid \<Rightarrow> keypacket \<Rightarrow> phase \<Rightarrow> build_state \<Rightarrow> bool" where
  "binv kid pk ph st =
     (b_primaryKey st = Some pk \<and> l_primaryKeyId st = Some kid \<and>
      (case ph of
         KeyRevs \<Rightarrow> b_directSignatures st = [] \<and> b_users st = [] \<and> b_subKeys st = []
                    \<and> l_user st = None \<and> l_subKey st = None
       | DirectSigs \<Rightarrow> b_users st = [] \<and> b_subKeys st = []
                    \<and> l_user st = None \<and> l_subKey st = None
       | UserRevs \<Rightarrow> (\<exists>us u. b_users st = us @ [u] \<and> l_user st = Some (length us)
                      \<and> selfCertifications u = [] \<and> otherCertifications u = [])
                    \<and> b_subKeys st = [] \<and> l_subKey st = None
       | UserSelf \<Rightarrow> (\<exists>us u. b_users st = us @ [u] \<and> l_user st = Some (length us)
                      \<and> otherCertifications u = [])
                    \<and> b_subKeys st = [] \<and> l_subKey st = None
       | UserOther \<Rightarrow> (\<exists>us u. b_users st = us @ [u] \<and> l_user st = Some (length us))
                    \<and> b_subKeys st = [] \<and> l_subKey st = None
       | SubRevs \<Rightarrow> b_users st \<noteq> [] \<and> l_user st = None
                    \<and> (\<exists>sks sk. b_subKeys st = sks @ [sk] \<and> l_subKey st = Some (length sks)
                          \<and> bindingSignatures sk = [])
       | SubBinds \<Rightarrow> b_users st \<noteq> [] \<and> l_user st = None
                    \<and> (\<exists>sks sk. b_subKeys st = sks @ [sk] \<and> l_subKey st = Some (length sks))))"

section \<open>Surviving certificates\<close>

text \<open>A certificate that the primary-user selector does not skip: it verifies, is not
  revoked and is not expired at the date.\<close>

definition survives :: "ext \<Rightarrow> int option \<Rightarrow> signature \<Rightarrow> bool" where
  "survives env date cert =
     (truthy (verified cert) \<and> \<not> truthy (revoked cert) \<and> \<not> isExpired env cert date)"

section \<open>Example keys\<close>

text \<open>An instance of the enum table with the numbers of RFC 4880, the configuration of
  \<^verbatim>\<open>config.js\<close> over it, and collaborators for which every signature verifies and none
  is expired.\<close>

fun keyStatus_rfc :: "keyStatus \<Rightarrow> nat" where
  "keyStatus_rfc KS_invalid = 0"
| "keyStatus_rfc KS_expired = 1"
| "keyStatus_rfc KS_revoked = 2"
| "keyStatus_rfc KS_valid = 3"
| "keyStatus_rfc KS_no_self_cert = 4"

definition enums_rfc :: enums where
  "enums_rfc =
     \<lparr> keyStatus_number = keyStatus_rfc, keyFlags_sign_data = 2,
       keyFlags_encrypt_communication = 4, keyFlags_encrypt_storage = 8,
       symmetric_plaintext = 0, symmetric_idea = 1, symmetric_aes256 = 9,
       symmetric_known = (\<lambda>n. n \<in> {0, 1, 2, 3, 4, 7, 8, 9, 10}) \<rparr>"

fun hash_length_rfc :: "hash_algo option \<Rightarrow> nat option" where
  "hash_length_rfc None = None"
| "hash_length_rfc (Some md5) = Some 16"
| "hash_length_rfc (Some sha1) = Some 20"
| "hash_length_rfc (Some ripemd) = Some 20"
| "hash_length_rfc (Some sha256) = Some 32"
| "hash_length_rfc (Some sha384) = Some 48"
| "hash_length_rfc (Some sha512) = Some 64"
| "hash_length_rfc (Some sha224) = Some 28"

definition ext_all_verify :: ext where
  "ext_all_verify =
     \<lparr> verify = (\<lambda>s k d. True), isExpired = (\<lambda>s date. False), now = 5000000,
       getHashByteLength = hash_length_rfc, enums = enums_rfc, config = config_js enums_rfc \<rparr>"

definition pkA :: keypacket where
  "pkA = \<lparr> tag = T_publicKey, version = 4, algorithm = rsa_encrypt_sign, created = 1000000,
           expirationTimeV3 = 0, getKeyId = [1], getFingerprint = [1], params0 = [] \<rparr>"

definition pkB :: keypacket where
  "pkB = \<lparr> tag = T_secretKey, version = 4, algorithm = rsa_encrypt_sign, created = 2000000,
           expirationTimeV3 = 0, getKeyId = [2], getFingerprint = [2], params0 = [] \<rparr>"

definition subA :: keypacket where
  "subA = \<lparr> tag = T_publicSubkey, version = 4, algorithm = rsa_encrypt_sign, created = 1000000,
           expirationTimeV3 = 0, getKeyId = [3], getFingerprint = [3], params0 = [] \<rparr>"

definition uidA :: userpacket where
  "uidA = \<lparr> utag = T_userid, content = [65] \<rparr>"

definition uidB :: userpacket where
  "uidB = \<lparr> utag = T_userid, content = [66] \<rparr>"

definition attrA :: userpacket where
  "attrA = \<lparr> utag = T_userAttribute, content = [1, 2, 3] \<rparr>"

text \<open>A signature of the given type, issuer, creation time and raw bytes, with every
  optional subpacket absent and nothing cached.\<close>

definition sigA :: "signature_type \<Rightarrow> keyid \<Rightarrow> int \<Rightarrow> bytes \<Rightarrow> signature" where
  "sigA t issuer c raw =
     \<lparr> signatureType = t, issuerKeyId = issuer, sig_created = c, keyExpirationTime = None,
       keyNeverExpires = None, isPrimaryUserID = None, keyFlags = None,
       preferredHashAlgorithms = None, preferredSymmetricAlgorithms = None,
       verified = None, revoked = None, sig_bytes = raw \<rparr>"

definition p0 :: "packet list" where
  "p0 = [KeyPacket pkA,
         SignaturePacket (sigA key_revocation [1] 5 [10]),
         SignaturePacket (sigA sig_key [1] 6 [11]),
         UserPacket uidA,
         SignaturePacket (sigA cert_revocation [1] 7 [12]),
         SignaturePacket (sigA cert_generic [1] 8 [13]),
         SignaturePacket (sigA cert_positive [9] 9 [14]),
         KeyPacket subA,
         SignaturePacket (sigA subkey_revocation [1] 10 [15]),
         SignaturePacket (sigA subkey_binding [1] 11 [16])]"

definition ext_none_verify :: ext where
  "ext_none_verify = ext_all_verify\<lparr>verify := (\<lambda>s k d. False)\<rparr>"

text \<open>Collaborators for which a key revocation neither verifies nor is unexpired, and
  every other signature verifies and is not expired.\<close>

definition ext_revocations_fail :: ext where
  "ext_revocations_fail =
     ext_all_verify\<lparr>verify := (\<lambda>s k d. signatureType s \<noteq> key_revocation),
                    isExpired := (\<lambda>s date. signatureType s = key_revocation)\<rparr>"

definition userOf :: "userpacket \<Rightarrow> signature list \<Rightarrow> user" where
  "userOf p certs = (User p)\<lparr>selfCertifications := certs\<rparr>"

definition subkeyOf :: "keypacket \<Rightarrow> signature list \<Rightarrow> subkey" where
  "subkeyOf p bs = (SubKey p)\<lparr>bindingSignatures := bs\<rparr>"

text \<open>A key with one user and one self-certification, and the same key with a subkey
  bound for encryption (key flags \<open>4 + 8\<close>).\<close>

definition keyOne :: key where
  "keyOne = \<lparr> primaryKey = pkA, revocationSignatures = [], directSignatures = [],
     users = [userOf uidA [sigA cert_generic [1] 1000000 [20]]], subKeys = [] \<rparr>"

definition keyTwo :: key where
  "keyTwo = keyOne\<lparr>subKeys :=
     [subkeyOf subA [(sigA subkey_binding [1] 1000000 [30])\<lparr>keyFlags := Some [12]\<rparr>]]\<rparr>"

text \<open>Scenario S5: two users with one self-certification each, the second created later
  and with the higher \<^verbatim>\<open>isPrimaryUserID\<close> weight.\<close>

definition certS5a :: signature where
  "certS5a = (sigA cert_generic [1] 1000000 [20])\<lparr>isPrimaryUserID := Some 0\<rparr>"

definition certS5b :: signature where
  "certS5b = (sigA cert_generic [1] 2000000 [21])\<lparr>isPrimaryUserID := Some 1\<rparr>"

definition keyS5 :: key where
  "keyS5 = \<lparr> primaryKey = pkA, revocationSignatures = [], directSignatures = [],
     users = [userOf uidA [certS5a], userOf uidB [certS5b]], subKeys = [] \<rparr>"

text \<open>A user attribute ahead of the only user ID.\<close>

definition keyAttrFirst :: key where
  "keyAttrFirst = \<lparr> primaryKey = pkA, revocationSignatures = [], directSignatures = [],
     users = [userOf attrA [], userOf uidA [sigA cert_generic [1] 1000000 [20]]],
     subKeys = [] \<rparr>"

text \<open>A self-certification made 1000 seconds after the key, with a key expiration time
  of 3600 seconds.\<close>

definition sigExp :: signature where
  "sigExp = (sigA cert_generic [1] 2000000 [20])
              \<lparr>keyExpirationTime := Some 3600, keyNeverExpires := Some False\<rparr>"

definition revokedCert :: signature where
  "revokedCert = (sigA cert_generic [1] 1000000 [20])\<lparr>revoked := Some True\<rparr>"

text \<open>An ECDSA key on the curve P-384, whose registered hash is SHA-384.\<close>

definition pkP384 :: keypacket where
  "pkP384 = \<lparr> tag = T_secretKey, version = 4, algorithm = ecdsa, created = 1000000,
      expirationTimeV3 = 0, getKeyId = [4], getFingerprint = [4],
      params0 = [0x2B, 0x81, 0x04, 0x00, 0x22] \<rparr>"

definition keyP384 :: key where
  "keyP384 = \<lparr> primaryKey = pkP384, revocationSignatures = [], directSignatures = [],
     users = [userOf uidA [sigA cert_generic [4] 1000000 [22]]], subKeys = [] \<rparr>"

text \<open>A key whose primary user prefers plaintext (0) to AES-256 (9).\<close>

definition keyPlain :: key where
  "keyPlain = \<lparr> primaryKey = pkA, revocationSignatures = [], directSignatures = [],
     users = [userOf uidA [(sigA cert_generic [1] 1000000 [23])
                \<lparr>preferredSymmetricAlgorithms := Some [0, 9]\<rparr>]], subKeys = [] \<rparr>"

text \<open>Two binding signatures of the same issuer over the same subkey, both verified.\<close>

definition bindOld :: signature where
  "bindOld = (sigA subkey_binding [1] 1000000 [30])\<lparr>verified := Some True\<rparr>"

definition bindNew :: signature where
  "bindNew = (sigA subkey_binding [1] 2000000 [31])\<lparr>verified := Some True\<rparr>"

text \<open>Key revocation signatures, and copies of \<open>keyOne\<close> that carry them.\<close>

definition revA :: signature where
  "revA = sigA key_revocation [1] 3000000 [40]"

definition revB :: signature where
  "revB = sigA key_revocation [1] 3500000 [41]"

definition keyRevA :: key where
  "keyRevA = keyOne\<lparr>revocationSignatures := [revA]\<rparr>"

definition keyRevB :: key where
  "keyRevB = keyOne\<lparr>revocationSignatures := [revB]\<rparr>"

definition no_data :: dataToVerify where
  "no_data = \<lparr> d_key = None, d_userid = None, d_bind = None \<rparr>"

section \<open>The builder and the serialisation\<close>

lemma User_toPacketlist_User [simp]:
  "User_toPacketlist (User p) = [UserPacket p]"
  by (cases "utag p") (simp_all add: User_toPacketlist_def User_def)

lemma User_fields [simp]:
  "selfCertifications (User p) = []" "otherCertifications (User p) = []"
  "u_revocationSignatures (User p) = []"
  by (simp_all add: User_def)

lemma SubKey_toPacketlist_SubKey [simp]:
  "SubKey_toPacketlist (SubKey p) = [KeyPacket p]"
  by (simp add: SubKey_toPacketlist_def SubKey_def)

lemma SubKey_fields [simp]:
  "bindingSignatures (SubKey p) = []" "s_revocationSignatures (SubKey p) = []"
  "subKey (SubKey p) = p"
  by (simp_all add: SubKey_def)

lemma step_signature:
  assumes "binv kid pk ph st" and "canon_signature kid ph s = Some ph'"
  shows "\<exists>st'. signature_case st s = Inr st' \<and> binv kid pk ph' st' \<and>
               ser pk st' = ser pk st @ [SignaturePacket s]"
  using assms
  by (cases ph; cases "signatureType s")
     (auto simp: binv_def canon_signature_def signature_case_def ser_def
        User_toPacketlist_def SubKey_toPacketlist_def split: if_splits option.splits)

lemma step_packet:
  assumes "binv kid pk ph st" and "canon_step kid ph p = Some ph'"
  shows "\<exists>st'. packet_case st p = Inr st' \<and> binv kid pk ph' st' \<and>
               ser pk st' = ser pk st @ [p]"
proof (cases p)
  case (SignaturePacket s)
  with assms step_signature [of kid pk ph st s ph'] show ?thesis by simp
next
  case (KeyPacket q)
  with assms show ?thesis
    by (cases ph) (auto simp: binv_def ser_def split: if_splits)
next
  case (UserPacket q)
  with assms show ?thesis
    by (cases ph) (auto simp: binv_def ser_def split: if_splits)
next
  case (OtherPacket n)
  with assms show ?thesis by simp
qed

lemma run_packets:
  "binv kid pk ph st \<Longrightarrow> canon_run kid ph ps = Some ph' \<Longrightarrow>
   \<exists>st'. packets_loop st ps = Inr st' \<and> binv kid pk ph' st' \<and>
         ser pk st' = ser pk st @ ps"
proof (induction ps arbitrary: ph st)
  case Nil
  then show ?case by simp
next
  case (Cons p ps)
  from Cons.prems(2) obtain ph1 where s1: "canon_step kid ph p = Some ph1"
    and r1: "canon_run kid ph1 ps = Some ph'"
    by (auto split: option.splits)
  from step_packet [OF Cons.prems(1) s1] obtain st1 where
    p1: "packet_case st p = Inr st1" and i1: "binv kid pk ph1 st1"
    and e1: "ser pk st1 = ser pk st @ [p]" by blast
  from Cons.IH [OF i1 r1] obtain st' where
    "packets_loop st1 ps = Inr st'" "binv kid pk ph' st'" "ser pk st' = ser pk st1 @ ps"
    by blast
  with p1 e1 show ?case by simp
qed

lemma binv_start:
  "tag k = T_publicKey \<or> tag k = T_secretKey \<Longrightarrow>
   packet_case build_init (KeyPacket k)
     = Inr (build_init\<lparr>b_primaryKey := Some k, l_primaryKeyId := Some (getKeyId k)\<rparr>) \<and>
   binv (getKeyId k) k KeyRevs
     (build_init\<lparr>b_primaryKey := Some k, l_primaryKeyId := Some (getKeyId k)\<rparr>) \<and>
   ser k (build_init\<lparr>b_primaryKey := Some k, l_primaryKeyId := Some (getKeyId k)\<rparr>)
     = [KeyPacket k]"
  by (auto simp: binv_def build_init_def ser_def)

text \<open>
  C4. For every well-formed packet sequence \<open>p\<close> (one primary key packet, at least one
  user, packets in the canonical order), building a \<open>Key\<close> from \<open>p\<close> succeeds and
  serialising it with \<open>toPacketlist\<close> gives back exactly \<open>p\<close>, in the same order.
\<close>

theorem toPacketlist_Key_roundtrip:
  assumes "well_formed p"
  shows "\<exists>k. Key p = Inr k \<and> toPacketlist k = p"
proof -
  from assms obtain k rest where p: "p = KeyPacket k # rest"
    by (cases p rule: well_formed.cases) auto
  from assms p have t: "tag k = T_publicKey \<or> tag k = T_secretKey" by simp
  from assms p obtain ph where run: "canon_run (getKeyId k) KeyRevs rest = Some ph"
    and ph: "ph \<noteq> KeyRevs" "ph \<noteq> DirectSigs"
    by (auto split: option.splits)
  let ?st0 = "build_init\<lparr>b_primaryKey := Some k, l_primaryKeyId := Some (getKeyId k)\<rparr>"
  from binv_start [OF t] have s0: "packet_case build_init (KeyPacket k) = Inr ?st0"
    and i0: "binv (getKeyId k) k KeyRevs ?st0" and e0: "ser k ?st0 = [KeyPacket k]"
    by simp_all
  from run_packets [OF i0 run] obtain st where
    l: "packets_loop ?st0 rest = Inr st" and i: "binv (getKeyId k) k ph st"
    and e: "ser k st = ser k ?st0 @ rest" by blast
  from l s0 have b: "packetlist2structure p = Inr st"
    by (simp add: packetlist2structure_def p)
  from i ph have u: "b_users st \<noteq> []" and pk: "b_primaryKey st = Some k"
    by (cases ph; auto simp: binv_def)+
  from b u pk e e0 show ?thesis
    by (simp add: Key_def toPacketlist_def ser_def p)
qed

theorem toPacketlist_Key_roundtrip_witness:
  "well_formed p0 \<and> (\<exists>k. Key p0 = Inr k \<and> toPacketlist k = p0)"
proof -
  have wf: "well_formed p0"
    by (simp add: p0_def pkA_def subA_def sigA_def canon_signature_def)
  from toPacketlist_Key_roundtrip [OF wf] wf show ?thesis by simp
qed

lemma packets_loop_append:
  "packets_loop st (ps @ qs) =
     (case packets_loop st ps of Inl e \<Rightarrow> Inl e | Inr st' \<Rightarrow> packets_loop st' qs)"
  by (induction ps arbitrary: st) (simp_all split: sum.splits)

lemma signature_case_frame:
  "signature_case st s = Inr st' \<Longrightarrow>
   b_primaryKey st' = b_primaryKey st \<and> l_primaryKeyId st' = l_primaryKeyId st"
  by (auto simp: signature_case_def split: option.splits if_splits)

lemma signature_case_no_error:
  "l_primaryKeyId st \<noteq> None \<Longrightarrow> \<exists>st'. signature_case st s = Inr st'"
  by (auto simp: signature_case_def split: option.splits)

lemma packet_case_no_error:
  "l_primaryKeyId st \<noteq> None \<Longrightarrow>
   \<exists>st'. packet_case st p = Inr st' \<and> l_primaryKeyId st' \<noteq> None"
proof (cases p)
  case (SignaturePacket s)
  assume a: "l_primaryKeyId st \<noteq> None"
  from signature_case_no_error [OF a, of s] obtain st' where
    c: "signature_case st s = Inr st'" by blast
  with signature_case_frame [OF c] a SignaturePacket show ?thesis by simp
qed auto

lemma packets_loop_no_error:
  "l_primaryKeyId st \<noteq> None \<Longrightarrow> \<exists>st'. packets_loop st ps = Inr st'"
proof (induction ps arbitrary: st)
  case Nil
  then show ?case by simp
next
  case (Cons p ps)
  from packet_case_no_error [OF Cons.prems, of p] obtain st1 where
    "packet_case st p = Inr st1" "l_primaryKeyId st1 \<noteq> None" by blast
  with Cons.IH [of st1] show ?case by simp
qed

lemma packet_case_primary:
  "\<not> is_primary_packet p \<Longrightarrow> packet_case st p = Inr st' \<Longrightarrow>
   b_primaryKey st' = b_primaryKey st"
  by (cases p) (auto dest: signature_case_frame)

lemma packets_loop_primary:
  "\<forall>p\<in>set ps. \<not> is_primary_packet p \<Longrightarrow> packets_loop st ps = Inr st' \<Longrightarrow>
   b_primaryKey st' = b_primaryKey st"
proof (induction ps arbitrary: st)
  case Nil
  then show ?case by simp
next
  case (Cons p ps)
  from Cons.prems(2) obtain st1 where p1: "packet_case st p = Inr st1"
    and l1: "packets_loop st1 ps = Inr st'"
    by (auto split: sum.splits)
  from Cons.prems(1) have "\<not> is_primary_packet p" "\<forall>q\<in>set ps. \<not> is_primary_packet q"
    by simp_all
  with packet_case_primary [OF _ p1] Cons.IH [OF _ l1] show ?case by simp
qed

text \<open>
  C3, as the code has it. When the builder has consumed a packet sequence \<open>ps\<close> and the
  primary key is set, a further PublicKey or SecretKey packet \<open>k2\<close> raises no error:
  it replaces the primary key and the primary key ID, and the rest of the state is
  kept. The packets \<open>qs\<close> that follow are consumed without error as well, and when
  none of them is a primary key packet a \<open>Key\<close> that is built from the whole sequence
  has \<open>k2\<close> as its primary key.
\<close>

theorem second_primary_key_replaces:
  assumes "packetlist2structure ps = Inr st"
    and "b_primaryKey st = Some k1"
    and "tag k2 = T_publicKey \<or> tag k2 = T_secretKey"
  shows "packetlist2structure (ps @ [KeyPacket k2])
           = Inr (st\<lparr>b_primaryKey := Some k2, l_primaryKeyId := Some (getKeyId k2)\<rparr>)
         \<and> (\<exists>st'. packetlist2structure (ps @ KeyPacket k2 # qs) = Inr st')
         \<and> ((\<forall>p\<in>set qs. \<not> is_primary_packet p) \<longrightarrow>
              (\<forall>k. Key (ps @ KeyPacket k2 # qs) = Inr k \<longrightarrow> primaryKey k = k2))"
proof (intro conjI impI allI)
  let ?st2 = "st\<lparr>b_primaryKey := Some k2, l_primaryKeyId := Some (getKeyId k2)\<rparr>"
  have step: "packet_case st (KeyPacket k2) = Inr ?st2"
    using assms(3) by auto
  show "packetlist2structure (ps @ [KeyPacket k2]) = Inr ?st2"
    using assms(1) step by (simp add: packetlist2structure_def packets_loop_append)
  have rest: "packetlist2structure (ps @ KeyPacket k2 # qs) = packets_loop ?st2 qs"
    using assms(1) step by (simp add: packetlist2structure_def packets_loop_append)
  from packets_loop_no_error [of ?st2 qs]
  show "\<exists>st'. packetlist2structure (ps @ KeyPacket k2 # qs) = Inr st'"
    by (simp add: rest)
  fix k
  assume np: "\<forall>p\<in>set qs. \<not> is_primary_packet p"
    and K: "Key (ps @ KeyPacket k2 # qs) = Inr k"
  from K obtain st' where b: "packetlist2structure (ps @ KeyPacket k2 # qs) = Inr st'"
    and pk: "b_primaryKey st' = Some (primaryKey k)"
    by (auto simp: Key_def split: sum.splits option.splits if_splits)
  from b rest have "packets_loop ?st2 qs = Inr st'" by simp
  from packets_loop_primary [OF np this] pk show "primaryKey k = k2" by simp
qed

theorem second_primary_key_replaces_witness:
  "packetlist2structure [KeyPacket pkA, UserPacket uidA]
     = Inr (build_init\<lparr>b_primaryKey := Some pkA, l_primaryKeyId := Some (getKeyId pkA),
              l_user := Some 0, b_users := [User uidA]\<rparr>)
   \<and> (tag pkB = T_publicKey \<or> tag pkB = T_secretKey)
   \<and> list_all (\<lambda>p. \<not> is_primary_packet p) [UserPacket uidB]
   \<and> Key ([KeyPacket pkA, UserPacket uidA] @ KeyPacket pkB # [UserPacket uidB])
       = Inr \<lparr> primaryKey = pkB, revocationSignatures = [], directSignatures = [],
               users = [User uidA, User uidB], subKeys = [] \<rparr>
   \<and> primaryKey \<lparr> primaryKey = pkB, revocationSignatures = [], directSignatures = [],
               users = [User uidA, User uidB], subKeys = [] \<rparr> = pkB"
proof -
  have h1: "packetlist2structure [KeyPacket pkA, UserPacket uidA]
     = Inr (build_init\<lparr>b_primaryKey := Some pkA, l_primaryKeyId := Some (getKeyId pkA),
              l_user := Some 0, b_users := [User uidA]\<rparr>)"
    by (simp add: packetlist2structure_def build_init_def pkA_def)
  have h2: "b_primaryKey (build_init\<lparr>b_primaryKey := Some pkA,
              l_primaryKeyId := Some (getKeyId pkA),
              l_user := Some 0, b_users := [User uidA]\<rparr>) = Some pkA"
    by simp
  have h3: "tag pkB = T_publicKey \<or> tag pkB = T_secretKey" by (simp add: pkB_def)
  have h4: "\<forall>p\<in>set [UserPacket uidB]. \<not> is_primary_packet p" by simp
  have h5: "Key ([KeyPacket pkA, UserPacket uidA] @ KeyPacket pkB # [UserPacket uidB])
       = Inr \<lparr> primaryKey = pkB, revocationSignatures = [], directSignatures = [],
               users = [User uidA, User uidB], subKeys = [] \<rparr>"
    by (simp add: Key_def packetlist2structure_def build_init_def pkA_def pkB_def)
  from second_primary_key_replaces [OF h1 h2 h3, of "[UserPacket uidB]"] h4 h5
  have "primaryKey \<lparr> primaryKey = pkB, revocationSignatures = [], directSignatures = [],
               users = [User uidA, User uidB], subKeys = [] \<rparr> = pkB"
    by blast
  with h1 h3 h4 h5 show ?thesis by (simp add: list_all_iff)
qed

text \<open>
  C3, as the spec has it, fails: the sequence primary key \<open>pkA\<close>, user \<open>uidA\<close>, primary
  key \<open>pkB\<close> is accepted, and the key built has \<open>pkB\<close> as its primary key.
\<close>

theorem second_primary_key_accepted:
  "Key [KeyPacket pkA, UserPacket uidA, KeyPacket pkB] =
     Inr \<lparr> primaryKey = pkB, revocationSignatures = [], directSignatures = [],
           users = [User uidA], subKeys = [] \<rparr>"
  by (simp add: Key_def packetlist2structure_def build_init_def pkA_def pkB_def)

text \<open>A certification that follows a user packet ahead of any primary key packet makes
  the constructor throw a \<open>TypeError\<close>.\<close>

lemma certification_before_primary_key:
  "Key [UserPacket uidA, SignaturePacket (sigA cert_generic [1] 8 [13]), KeyPacket pkA]
     = Inl TypeError"
  by (simp add: Key_def packetlist2structure_def build_init_def signature_case_def sigA_def)

section \<open>Revocation and expiration\<close>

text \<open>
  C10. \<open>isDataRevoked\<close> never resets the \<open>revoked\<close> flag of its target signature: when
  the flag is already true the call returns true and leaves it true, whatever the
  candidate revocations are and whether or not any of them verifies or has the
  target's issuer; and the flag after the call is the flag before it or true.
\<close>

theorem isDataRevoked_never_resets:
  "(revoked s = Some True \<longrightarrow>
      fst (isDataRevoked env pKey d revocations (Some s) k date) = Some True \<and>
      map_option revoked (snd (snd (isDataRevoked env pKey d revocations (Some s) k date)))
        = Some (Some True))
   \<and> (map_option revoked (snd (snd (isDataRevoked env pKey d revocations (Some s) k date)))
        = Some (revoked s)
      \<or> map_option revoked (snd (snd (isDataRevoked env pKey d revocations (Some s) k date)))
        = Some (Some True))"
  by (simp add: isDataRevoked_def Let_def)

theorem isDataRevoked_never_resets_witness:
  "revoked revokedCert = Some True \<and>
   \<not> verify ext_none_verify (sigA cert_revocation [7] 2000000 [40]) pkA
       \<lparr> d_key = Some pkA, d_userid = Some uidA, d_bind = None \<rparr> \<and>
   fst (isDataRevoked ext_none_verify pkA \<lparr> d_key = Some pkA, d_userid = Some uidA, d_bind = None \<rparr>
      [sigA cert_revocation [7] 2000000 [40]] (Some revokedCert) None (Some 5000000))
    = Some True \<and>
   map_option revoked (snd (snd
     (isDataRevoked ext_none_verify pkA \<lparr> d_key = Some pkA, d_userid = Some uidA, d_bind = None \<rparr>
      [sigA cert_revocation [7] 2000000 [40]] (Some revokedCert) None (Some 5000000))))
    = Some (Some True)"
proof -
  have h: "revoked revokedCert = Some True" by (simp add: revokedCert_def)
  have v: "\<not> verify ext_none_verify (sigA cert_revocation [7] 2000000 [40]) pkA
       \<lparr> d_key = Some pkA, d_userid = Some uidA, d_bind = None \<rparr>"
    by (simp add: ext_none_verify_def)
  from isDataRevoked_never_resets [of revokedCert ext_none_verify pkA
      "\<lparr> d_key = Some pkA, d_userid = Some uidA, d_bind = None \<rparr>"
      "[sigA cert_revocation [7] 2000000 [40]]" None "Some 5000000"] h v
  show ?thesis by blast
qed

lemmas evaluation =
  getSigningKeyPacket_def getEncryptionKeyPacket_def primaryKey_usable_def
  verifyPrimaryKey_def isValidSigningKeyPacket_def isValidEncryptionKeyPacket_def
  isDataExpired_def getExpirationTime_def date_or_infinity_def getPrimaryUser_def
  selfCertification_body_def not_most_recent_def cached_verify_def isDataRevoked_def
  check_revocation_def truthy_def truthy_number_def to_number_def js_sort_def
  primary_user_compare_def Let_def normalizeDate_def SubKey_verify_def verify_binding_def
  keyFlags0_def

lemmas examples =
  ext_all_verify_def config_js_def enums_rfc_def userOf_def User_def uidA_def sigA_def
  pkA_def

text \<open>
  C8 at a failing input. The key packet \<open>pkA\<close> is of version 4 and was created at second
  1000; its self-certification \<open>sigExp\<close> was made at second 2000, carries a key
  expiration time of 3600 seconds with \<open>keyNeverExpires = false\<close>, and is not itself
  expired. At second \<open>1000 + 3600\<close> the claim has the key expired; \<open>isDataExpired\<close>
  answers false, since \<open>getExpirationTime\<close> counts the 3600 seconds from the creation
  of the signature.
\<close>

theorem isDataExpired_counts_from_signature:
  "version pkA = 4 \<and> keyExpirationTime sigExp = Some 3600 \<and> keyNeverExpires sigExp = Some False
   \<and> normalizeDate (Some (created pkA + 3600 * 1000)) = Some (created pkA + 3600 * 1000)
   \<and> \<not> isExpired ext_all_verify sigExp (Some (created pkA + 3600 * 1000))
   \<and> getExpirationTime pkA (Some sigExp) = Inr (Finite (sig_created sigExp + 3600 * 1000))
   \<and> isDataExpired ext_all_verify pkA (Some sigExp) (Some (created pkA + 3600 * 1000)) = Inr False"
  by (simp add: evaluation examples sigExp_def)

section \<open>Primary user\<close>

text \<open>
  C2 at two failing inputs. In \<open>keyS5\<close> both self-certifications verify, neither is
  revoked or expired, and the one of the second user has the higher weight and the
  later creation time; \<open>getPrimaryUser\<close> returns the first user: the candidates are
  sorted from the most to the least significant and \<^verbatim>\<open>pop()\<close> takes the last. In
  \<open>keyAttrFirst\<close> a user attribute stands ahead of a user ID with a good
  self-certification; \<open>getPrimaryUser\<close> returns nothing, since the loop returns at the
  first user with no user ID.
\<close>

theorem getPrimaryUser_returns_least_significant:
  "map_option index (fst (getPrimaryUser ext_all_verify keyS5 (Some 5000000))) = Some 0
   \<and> map_option selfCertification (fst (getPrimaryUser ext_all_verify keyS5 (Some 5000000)))
       = Some (certS5a\<lparr>verified := Some True\<rparr>)
   \<and> to_number (isPrimaryUserID certS5a) < to_number (isPrimaryUserID certS5b)
   \<and> sig_created certS5a < sig_created certS5b
   \<and> fst (getPrimaryUser ext_all_verify keyAttrFirst (Some 5000000)) = None"
  by (simp add: evaluation examples keyS5_def certS5a_def certS5b_def keyAttrFirst_def
      uidB_def attrA_def)

section \<open>Operation selector\<close>

lemma isValidSigningKeyPacket_algorithm:
  "isValidSigningKeyPacket env p s date = Inr True \<Longrightarrow>
   algorithm p \<noteq> rsa_encrypt \<and> algorithm p \<noteq> elgamal \<and> algorithm p \<noteq> ecdh"
  by (auto simp: isValidSigningKeyPacket_def split: if_splits)

lemma isValidEncryptionKeyPacket_algorithm:
  "isValidEncryptionKeyPacket env p s date = Inr True \<Longrightarrow>
   algorithm p \<noteq> dsa \<and> algorithm p \<noteq> rsa_sign \<and> algorithm p \<noteq> ecdsa \<and> algorithm p \<noteq> eddsa"
  by (auto simp: isValidEncryptionKeyPacket_def split: if_splits)

lemma some_binding_valid_True:
  "some_binding_valid isValid sub date bs = Inr True \<Longrightarrow>
   \<exists>b\<in>set bs. isValid sub b date = Inr True"
  by (induction bs) (auto split: sum.splits if_splits)

lemma subKeys_loop_Some:
  "subKeys_loop env isValid pKey keyId date sks = (Inr (Some p), sks') \<Longrightarrow>
   \<exists>b. isValid p b date = Inr True"
proof (induction sks arbitrary: sks')
  case Nil
  then show ?case by simp
next
  case (Cons sk sks)
  then show ?case
    by (auto split: if_splits prod.splits sum.splits dest: some_binding_valid_True)
qed

lemma primaryKey_usable_True:
  "primaryKey_usable env isValid k keyId date = (Inr True, k1) \<Longrightarrow> primaryKey k = pk \<Longrightarrow>
   \<exists>s. isValid pk s date = Inr True"
  by (auto simp: primaryKey_usable_def Let_def
      split: prod.splits option.splits if_splits sum.splits)

text \<open>
  C5. For every key, key-ID hint and date, a packet that \<open>getSigningKeyPacket\<close> returns
  is not of the algorithm \<open>rsa_encrypt\<close>, \<open>elgamal\<close> or \<open>ecdh\<close>, and a packet that
  \<open>getEncryptionKeyPacket\<close> returns is not of the algorithm \<open>dsa\<close>, \<open>rsa_sign\<close>, \<open>ecdsa\<close>
  or \<open>eddsa\<close>.
\<close>

theorem selectors_exclude_algorithms:
  "(fst (getSigningKeyPacket env k keyId date) = Inr (Some p) \<longrightarrow>
      algorithm p \<noteq> rsa_encrypt \<and> algorithm p \<noteq> elgamal \<and> algorithm p \<noteq> ecdh)
   \<and> (fst (getEncryptionKeyPacket env k keyId date) = Inr (Some q) \<longrightarrow>
      algorithm q \<noteq> dsa \<and> algorithm q \<noteq> rsa_sign \<and> algorithm q \<noteq> ecdsa
      \<and> algorithm q \<noteq> eddsa)"
proof (intro conjI impI)
  assume a: "fst (getSigningKeyPacket env k keyId date) = Inr (Some p)"
  then have "\<exists>s. isValidSigningKeyPacket env p s date = Inr True"
    by (auto simp: getSigningKeyPacket_def Let_def
        split: prod.splits sum.splits if_splits
        dest: subKeys_loop_Some
        dest!: primaryKey_usable_True [where pk = "primaryKey k"])
  then show "algorithm p \<noteq> rsa_encrypt" "algorithm p \<noteq> elgamal" "algorithm p \<noteq> ecdh"
    by (auto dest: isValidSigningKeyPacket_algorithm)
next
  assume a: "fst (getEncryptionKeyPacket env k keyId date) = Inr (Some q)"
  then have "\<exists>s. isValidEncryptionKeyPacket env q s date = Inr True"
    by (auto simp: getEncryptionKeyPacket_def Let_def
        split: prod.splits sum.splits if_splits option.splits
        dest: subKeys_loop_Some
        dest!: primaryKey_usable_True [where pk = "primaryKey k"])
  then show "algorithm q \<noteq> dsa" "algorithm q \<noteq> rsa_sign" "algorithm q \<noteq> ecdsa"
    "algorithm q \<noteq> eddsa"
    by (auto dest: isValidEncryptionKeyPacket_algorithm)
qed

theorem selectors_exclude_algorithms_witness:
  "fst (getSigningKeyPacket ext_all_verify keyTwo None (Some 5000000)) = Inr (Some pkA)
   \<and> algorithm pkA \<noteq> rsa_encrypt \<and> algorithm pkA \<noteq> elgamal \<and> algorithm pkA \<noteq> ecdh
   \<and> fst (getEncryptionKeyPacket ext_all_verify keyTwo None (Some 5000000)) = Inr (Some subA)
   \<and> algorithm subA \<noteq> dsa \<and> algorithm subA \<noteq> rsa_sign \<and> algorithm subA \<noteq> ecdsa
   \<and> algorithm subA \<noteq> eddsa"
proof -
  have s: "fst (getSigningKeyPacket ext_all_verify keyTwo None (Some 5000000)) = Inr (Some pkA)"
    by (simp add: evaluation examples keyTwo_def keyOne_def subkeyOf_def SubKey_def subA_def)
  have e: "fst (getEncryptionKeyPacket ext_all_verify keyTwo None (Some 5000000))
             = Inr (Some subA)"
    by (simp add: evaluation examples keyTwo_def keyOne_def subkeyOf_def SubKey_def subA_def)
  from selectors_exclude_algorithms
         [of ext_all_verify keyTwo None "Some 5000000" pkA subA] s e
  show ?thesis by blast
qed

section \<open>Preference negotiation\<close>

text \<open>
  C6 at a failing input. \<open>keyP384\<close> is a full key whose signing key packet is its
  primary key, an ECDSA key on P-384; the curve's registered hash is SHA-384 (48
  bytes) and the hash chosen otherwise is the configured SHA-256 (32 bytes), so the
  claim has SHA-384 returned. \<open>getPreferredHashAlgo\<close> returns SHA-256 for the key, and
  SHA-384 only when it is handed the key packet itself.
\<close>

theorem getPreferredHashAlgo_Key_skips_curve:
  "getPreferredHashAlgo ext_all_verify (TargetKey keyP384) = Inr (Some sha256)
   \<and> fst (getSigningKeyPacket ext_all_verify keyP384 None None) = Inr (Some pkP384)
   \<and> algorithm pkP384 = ecdsa
   \<and> curve_getPreferredHashAlgo (params0 pkP384) = Inr (Some sha384)
   \<and> getHashByteLength ext_all_verify (Some sha256) = Some 32
   \<and> getHashByteLength ext_all_verify (Some sha384) = Some 48
   \<and> getPreferredHashAlgo ext_all_verify (TargetPacket pkP384) = Inr (Some sha384)"
  by (simp add: evaluation examples getPreferredHashAlgo_def key_preference_def
      prototype_switch_def longer_hash_def hash_byte_length_def
      curve_getPreferredHashAlgo_def curves_def keyP384_def pkP384_def)

text \<open>
  C7 at a failing input. The primary user of the one key \<open>keyPlain\<close> lists plaintext
  (0) ahead of AES-256 (9); \<open>getPreferredSymAlgo\<close> returns plaintext: the property
  name \<^verbatim>\<open>"0"\<close> is a string and never \<^verbatim>\<open>===\<close> the number
  \<^verbatim>\<open>enums.symmetric.plaintext\<close>.
\<close>

theorem getPreferredSymAlgo_returns_plaintext:
  "getPreferredSymAlgo ext_all_verify [keyPlain] = 0
   \<and> symmetric_plaintext (enums ext_all_verify) = 0
   \<and> map_option (\<lambda>p. preferredSymmetricAlgorithms (selfCertification p))
        (fst (getPrimaryUser ext_all_verify keyPlain (Some (now ext_all_verify))))
       = Some (Some [0, 9])"
  by (simp add: evaluation examples getPreferredSymAlgo_def add_key_preferences_def
      add_preference_def consider_algo_def strict_not_equal_def keyPlain_def upt_rec
      drop_bit_eq_div)

section \<open>Merge engine\<close>

text \<open>
  C1 at two failing inputs. Source and destination subkey each hold one verified
  binding signature of the same issuer, \<open>bindOld\<close> created before \<open>bindNew\<close>. Merging
  the older one into a destination that holds the newer one leaves the older one
  alone; merging the newer one into a destination that holds the older one leaves
  both.
\<close>

theorem SubKey_update_keeps_older_binding:
  "issuerKeyId bindOld = issuerKeyId bindNew \<and> sig_created bindOld < sig_created bindNew
   \<and> SubKey_update ext_all_verify (subkeyOf subA [bindNew]) (subkeyOf subA [bindOld]) pkA
       = (Inr (), subkeyOf subA [bindOld], subkeyOf subA [bindOld])
   \<and> SubKey_update ext_all_verify (subkeyOf subA [bindOld]) (subkeyOf subA [bindNew]) pkA
       = (Inr (), subkeyOf subA [bindOld, bindNew], subkeyOf subA [bindNew])"
  by (simp add: evaluation examples SubKey_update_def mergeSignatures_def
      binding_checkFn_def revocation_checkFn_def bindOld_def bindNew_def subkeyOf_def
      SubKey_def subA_def)

lemma merge_pushes_mem:
  "x \<in> set (merge_pushes rs dest) \<Longrightarrow>
   x \<in> set dest \<or>
   ((True, x) \<in> set rs \<and> \<not> list_ex (\<lambda>destSig. sig_bytes destSig = sig_bytes x) dest)"
proof (induction rs arbitrary: dest)
  case Nil
  then show ?case by simp
next
  case (Cons r rs)
  obtain ok s where r: "r = (ok, s)" by (cases r)
  show ?case
  proof (cases "ok \<and> \<not> list_ex (\<lambda>destSig. sig_bytes destSig = sig_bytes s) dest")
    case True
    with Cons.prems r have "x \<in> set (merge_pushes rs (dest @ [s]))" by simp
    from Cons.IH [OF this] True r show ?thesis
      by (auto simp: list_ex_iff)
  next
    case False
    with Cons.prems r have "x \<in> set (merge_pushes rs dest)" by auto
    from Cons.IH [OF this] show ?thesis by auto
  qed
qed

lemma revocation_checkFn_True:
  "revocation_checkFn env pKey d k s dest = (True, s', dest') \<Longrightarrow>
   dest' = dest \<and>
   fst (cached_verify env s (case k of None \<Rightarrow> pKey | Some x \<Rightarrow> x) d) \<and>
   s' = snd (cached_verify env s (case k of None \<Rightarrow> pKey | Some x \<Rightarrow> x) d)"
  by (auto simp: revocation_checkFn_def isDataRevoked_def Let_def check_revocation_def
      truthy_def split: if_splits)

lemma revocation_checkFn_dest:
  "snd (snd (revocation_checkFn env pKey d k s dest)) = dest"
  by (simp add: revocation_checkFn_def split: prod.splits)

lemma merge_checks_revocation:
  "merge_checks env (Some (revocation_checkFn env pKey d k)) source dest = (rs, dest') \<Longrightarrow>
   dest' = dest \<and>
   (\<forall>x. (True, x) \<in> set rs \<longrightarrow>
      (\<exists>s\<in>set source.
          x = snd (cached_verify env s (case k of None \<Rightarrow> pKey | Some y \<Rightarrow> y) d) \<and>
          fst (cached_verify env s (case k of None \<Rightarrow> pKey | Some y \<Rightarrow> y) d) \<and>
          \<not> isExpired env s (Some (now env))))"
proof (induction source arbitrary: rs dest dest')
  case Nil
  then show ?case by simp
next
  case (Cons s source)
  show ?case
  proof (cases "isExpired env s (Some (now env))")
    case True
    with Cons.prems obtain rs1 where
      m: "merge_checks env (Some (revocation_checkFn env pKey d k)) source dest = (rs1, dest')"
      and rs: "rs = (False, s) # rs1"
      by (auto split: prod.splits)
    from Cons.IH [OF m] rs show ?thesis by auto
  next
    case False
    obtain ok s' d1 where c: "revocation_checkFn env pKey d k s dest = (ok, s', d1)"
      by (cases "revocation_checkFn env pKey d k s dest") auto
    from c revocation_checkFn_dest [of env pKey d k s dest] have d1: "d1 = dest" by simp
    from Cons.prems False c d1 obtain rs1 where
      m: "merge_checks env (Some (revocation_checkFn env pKey d k)) source dest = (rs1, dest')"
      and rs: "rs = (ok, s') # rs1"
      by (auto split: prod.splits)
    from Cons.IH [OF m] have ih: "dest' = dest"
      "\<And>x. (True, x) \<in> set rs1 \<Longrightarrow> (\<exists>s\<in>set source.
          x = snd (cached_verify env s (case k of None \<Rightarrow> pKey | Some y \<Rightarrow> y) d) \<and>
          fst (cached_verify env s (case k of None \<Rightarrow> pKey | Some y \<Rightarrow> y) d) \<and>
          \<not> isExpired env s (Some (now env)))"
      by auto
    show ?thesis
    proof (intro conjI allI impI)
      show "dest' = dest" by (rule ih(1))
    next
      fix x assume "(True, x) \<in> set rs"
      with rs have "(ok = True \<and> x = s') \<or> (True, x) \<in> set rs1" by auto
      then show "\<exists>s\<in>set (s # source).
          x = snd (cached_verify env s (case k of None \<Rightarrow> pKey | Some y \<Rightarrow> y) d) \<and>
          fst (cached_verify env s (case k of None \<Rightarrow> pKey | Some y \<Rightarrow> y) d) \<and>
          \<not> isExpired env s (Some (now env))"
      proof
        assume "ok = True \<and> x = s'"
        with c d1 revocation_checkFn_True [of env pKey d k s dest s' dest] False
        show ?thesis by auto
      next
        assume "(True, x) \<in> set rs1"
        from ih(2) [OF this] show ?thesis by auto
      qed
    qed
  qed
qed

lemma mergeSignatures_revocation:
  assumes "dest \<noteq> []"
    and "x \<in> set (snd (mergeSignatures env source dest
                 (Some (revocation_checkFn env pKey d k))))"
  shows "x \<in> set dest \<or>
         (\<exists>s\<in>set source.
            x = snd (cached_verify env s (case k of None \<Rightarrow> pKey | Some y \<Rightarrow> y) d) \<and>
            fst (cached_verify env s (case k of None \<Rightarrow> pKey | Some y \<Rightarrow> y) d) \<and>
            \<not> isExpired env s (Some (now env)) \<and>
            \<not> list_ex (\<lambda>destSig. sig_bytes destSig = sig_bytes x) dest)"
proof -
  obtain rs dest' where
    m: "merge_checks env (Some (revocation_checkFn env pKey d k)) source dest = (rs, dest')"
    by (cases "merge_checks env (Some (revocation_checkFn env pKey d k)) source dest")
  from merge_checks_revocation [OF m] have d: "dest' = dest"
    and r: "\<And>x. (True, x) \<in> set rs \<Longrightarrow> (\<exists>s\<in>set source.
          x = snd (cached_verify env s (case k of None \<Rightarrow> pKey | Some y \<Rightarrow> y) d) \<and>
          fst (cached_verify env s (case k of None \<Rightarrow> pKey | Some y \<Rightarrow> y) d) \<and>
          \<not> isExpired env s (Some (now env)))"
    by auto
  from assms m d have "x \<in> set (merge_pushes rs dest)"
    by (simp add: mergeSignatures_def)
  from merge_pushes_mem [OF this] show ?thesis
  proof
    assume "x \<in> set dest" then show ?thesis ..
  next
    assume a: "(True, x) \<in> set rs \<and> \<not> list_ex (\<lambda>destSig. sig_bytes destSig = sig_bytes x) dest"
    with r [of x] show ?thesis by auto
  qed
qed

lemma verifyPrimaryKey_primaryKey:
  "primaryKey (snd (verifyPrimaryKey env k date)) = primaryKey k"
  by (simp add: verifyPrimaryKey_def getPrimaryUser_def Let_def
      split: prod.splits option.splits sum.splits)

text \<open>
  The two branches of the merge of revocation signatures in \<open>Key.update\<close>. When the
  destination already holds a revocation signature, every revocation signature it
  holds afterwards was there before or is a revocation signature of the source that
  is not expired now, that passes the check function (its \<open>verified\<close> flag is cached,
  or \<open>verify\<close> succeeds with the source's primary key) and whose raw bytes no
  revocation signature of the destination had. When the destination holds none and
  the update gets to the merge, the destination takes over the source's array as it
  is. The source is read after the \<open>verifyPrimaryKey\<close> that opens the update.
\<close>

theorem Key_update_revocationSignatures:
  assumes "src1 = snd (verifyPrimaryKey env src (Some (now env)))"
    and "this' = fst (snd (Key_update_signatures env this src))"
    and "dv = \<lparr> d_key = None, d_userid = None, d_bind = None \<rparr>"
  shows "(revocationSignatures this \<noteq> [] \<longrightarrow>
           (\<forall>x\<in>set (revocationSignatures this').
              x \<in> set (revocationSignatures this) \<or>
              (\<exists>s\<in>set (revocationSignatures src1).
                 x = snd (cached_verify env s (primaryKey src) dv) \<and>
                 fst (cached_verify env s (primaryKey src) dv) \<and>
                 \<not> isExpired env s (Some (now env)) \<and>
                 \<not> list_ex (\<lambda>destSig. sig_bytes destSig = sig_bytes x)
                      (revocationSignatures this))))
         \<and> (revocationSignatures this = [] \<and>
              fst (Key_update_signatures env this src) = Inr True \<longrightarrow>
            revocationSignatures this' = revocationSignatures src1)"
proof (intro conjI impI ballI)
  fix x
  assume ne: "revocationSignatures this \<noteq> []"
    and x: "x \<in> set (revocationSignatures this')"
  obtain r where v: "verifyPrimaryKey env src (Some (now env)) = (r, src1)"
    using assms(1) by (cases "verifyPrimaryKey env src (Some (now env))") simp
  have pk: "primaryKey src1 = primaryKey src"
    using assms(1) by (simp add: verifyPrimaryKey_primaryKey)
  let ?this1 = "if tag (primaryKey this) = T_publicKey \<and> tag (primaryKey src1) = T_secretKey
                then this\<lparr>primaryKey := primaryKey src1\<rparr> else this"
  have cases: "revocationSignatures this' = revocationSignatures this \<or>
        revocationSignatures this' =
          snd (mergeSignatures env (revocationSignatures src1) (revocationSignatures this)
                (Some (revocation_checkFn env (primaryKey ?this1) dv (Some (primaryKey src1)))))"
    using v assms(2,3)
    by (auto simp: Key_update_signatures_def Let_def split: sum.splits prod.splits if_splits)
  then show "x \<in> set (revocationSignatures this) \<or>
              (\<exists>s\<in>set (revocationSignatures src1).
                 x = snd (cached_verify env s (primaryKey src) dv) \<and>
                 fst (cached_verify env s (primaryKey src) dv) \<and>
                 \<not> isExpired env s (Some (now env)) \<and>
                 \<not> list_ex (\<lambda>destSig. sig_bytes destSig = sig_bytes x)
                      (revocationSignatures this))"
  proof
    assume "revocationSignatures this' = revocationSignatures this"
    with x show ?thesis by simp
  next
    assume "revocationSignatures this' =
          snd (mergeSignatures env (revocationSignatures src1) (revocationSignatures this)
                (Some (revocation_checkFn env (primaryKey ?this1) dv (Some (primaryKey src1)))))"
    with x mergeSignatures_revocation [OF ne, of x env "revocationSignatures src1"
        "primaryKey ?this1" dv "Some (primaryKey src1)"] pk
    show ?thesis by simp
  qed
next
  assume a: "revocationSignatures this = [] \<and>
              fst (Key_update_signatures env this src) = Inr True"
  obtain r where v: "verifyPrimaryKey env src (Some (now env)) = (r, src1)"
    using assms(1) by (cases "verifyPrimaryKey env src (Some (now env))") simp
  from a v assms(2) show "revocationSignatures this' = revocationSignatures src1"
    by (auto simp: Key_update_signatures_def Let_def mergeSignatures_def
        split: sum.splits prod.splits if_splits)
qed


theorem Key_update_revocationSignatures_witness:
  "revocationSignatures keyRevA \<noteq> []
   \<and> revocationSignatures (fst (snd (Key_update_signatures ext_all_verify keyRevA keyRevB)))
       = [revA, revB\<lparr>verified := Some True\<rparr>]
   \<and> (\<exists>s\<in>set (revocationSignatures
                 (snd (verifyPrimaryKey ext_all_verify keyRevB (Some (now ext_all_verify))))).
         revB\<lparr>verified := Some True\<rparr> = snd (cached_verify ext_all_verify s (primaryKey keyRevB) no_data)
         \<and> fst (cached_verify ext_all_verify s (primaryKey keyRevB) no_data)
         \<and> \<not> isExpired ext_all_verify s (Some (now ext_all_verify)))
   \<and> revocationSignatures keyOne = []
   \<and> fst (Key_update_signatures ext_revocations_fail keyOne keyRevB) = Inr True
   \<and> revocationSignatures (fst (snd (Key_update_signatures ext_revocations_fail keyOne keyRevB)))
       = revocationSignatures
           (snd (verifyPrimaryKey ext_revocations_fail keyRevB (Some (now ext_revocations_fail))))"
proof -
  have h1: "revocationSignatures keyRevA \<noteq> []" by (simp add: keyRevA_def)
  have e1: "revocationSignatures (fst (snd (Key_update_signatures ext_all_verify keyRevA keyRevB)))
       = [revA, revB\<lparr>verified := Some True\<rparr>]"
    by (simp add: evaluation examples Key_update_signatures_def mergeSignatures_def
        revocation_checkFn_def keyRevA_def keyRevB_def keyOne_def revA_def revB_def)
  have n1: "revB\<lparr>verified := Some True\<rparr> \<notin> set (revocationSignatures keyRevA)"
    by (simp add: keyRevA_def revA_def revB_def sigA_def)
  have h2: "revocationSignatures keyOne = []" by (simp add: keyOne_def)
  have r2: "fst (Key_update_signatures ext_revocations_fail keyOne keyRevB) = Inr True"
    by (simp add: evaluation examples Key_update_signatures_def mergeSignatures_def
        revocation_checkFn_def keyRevB_def keyOne_def revB_def ext_revocations_fail_def)
  note t1 = Key_update_revocationSignatures
      [OF refl refl no_data_def, of keyRevA ext_all_verify keyRevB]
  note t2 = Key_update_revocationSignatures
      [OF refl refl no_data_def, of keyOne ext_revocations_fail keyRevB]
  from t1 h1 e1 n1 have b1: "\<exists>s\<in>set (revocationSignatures
                 (snd (verifyPrimaryKey ext_all_verify keyRevB (Some (now ext_all_verify))))).
         revB\<lparr>verified := Some True\<rparr> = snd (cached_verify ext_all_verify s (primaryKey keyRevB) no_data)
         \<and> fst (cached_verify ext_all_verify s (primaryKey keyRevB) no_data)
         \<and> \<not> isExpired ext_all_verify s (Some (now ext_all_verify))"
    by fastforce
  from t2 h2 r2 have b2:
    "revocationSignatures (fst (snd (Key_update_signatures ext_revocations_fail keyOne keyRevB)))
       = revocationSignatures
           (snd (verifyPrimaryKey ext_revocations_fail keyRevB (Some (now ext_revocations_fail))))"
    by blast
  from h1 e1 b1 h2 r2 b2 show ?thesis by blast
qed

text \<open>
  C9 at a failing input. The destination \<open>keyOne\<close> holds no revocation signature; the
  source \<open>keyRevB\<close> is the same key with the one key-revocation signature \<open>revB\<close>, which
  is expired and does not verify, neither over the source's nor over the
  destination's primary key. The update gets to the merge, and afterwards the
  destination holds \<open>revB\<close>: with an empty destination array \<open>mergeSignatures\<close> assigns
  the source's array and runs neither the expiry test nor the check function. With
  the destination \<open>keyRevA\<close>, which holds the revocation signature \<open>revA\<close>, the same
  update leaves \<open>revB\<close> out.
\<close>

theorem Key_update_adopts_unchecked_revocation:
  "revocationSignatures keyOne = []
   \<and> revocationSignatures keyRevB = [revB]
   \<and> isExpired ext_revocations_fail revB (Some (now ext_revocations_fail))
   \<and> \<not> verify ext_revocations_fail revB (primaryKey keyRevB) no_data
   \<and> \<not> verify ext_revocations_fail revB (primaryKey keyRevB)
         \<lparr> d_key = Some (primaryKey keyOne), d_userid = None, d_bind = None \<rparr>
   \<and> verified revB = None
   \<and> fst (Key_update_signatures ext_revocations_fail keyOne keyRevB) = Inr True
   \<and> revocationSignatures (fst (snd (Key_update_signatures ext_revocations_fail keyOne keyRevB)))
       = [revB\<lparr>verified := Some False\<rparr>]
   \<and> fst (Key_update_signatures ext_revocations_fail keyRevA keyRevB) = Inr True
   \<and> revocationSignatures (fst (snd (Key_update_signatures ext_revocations_fail keyRevA keyRevB)))
       = [revA]"
  by (simp add: evaluation examples Key_update_signatures_def mergeSignatures_def
      revocation_checkFn_def keyRevA_def keyRevB_def keyOne_def revA_def revB_def
      ext_revocations_fail_def)

section \<open>Further properties of the code\<close>

text \<open>
  Revocation dominance: when one of the key's revocation signatures passes the
  check of \<open>isDataRevoked\<close> (it verifies over the primary key, and is not expired
  where the configuration lets revocations expire), \<open>verifyPrimaryKey\<close> returns
  \<open>revoked\<close>, whatever the other signatures of the key are.
\<close>

theorem verifyPrimaryKey_revocation_dominates:
  assumes "r \<in> set (revocationSignatures k)"
    and "fst (check_revocation env (primaryKey k)
                \<lparr> d_key = Some (primaryKey k), d_userid = None, d_bind = None \<rparr>
                (normalizeDate date) r)"
  shows "fst (verifyPrimaryKey env k date) = Inr KS_revoked"
proof -
  let ?d = "\<lparr> d_key = Some (primaryKey k), d_userid = None, d_bind = None \<rparr>"
  let ?c = "check_revocation env (primaryKey k) ?d (normalizeDate date)"
  from assms have "\<exists>x\<in>set (map ?c (revocationSignatures k)). fst x" by auto
  then have "filter fst (map ?c (revocationSignatures k)) \<noteq> []"
    by (simp add: filter_empty_conv)
  then show ?thesis
    by (simp add: verifyPrimaryKey_def isDataRevoked_def Let_def truthy_def)
qed

theorem verifyPrimaryKey_revocation_dominates_witness:
  "revA \<in> set (revocationSignatures keyRevA)
   \<and> fst (check_revocation ext_all_verify (primaryKey keyRevA)
                \<lparr> d_key = Some (primaryKey keyRevA), d_userid = None, d_bind = None \<rparr>
                (normalizeDate (Some 5000000)) revA)
   \<and> fst (verifyPrimaryKey ext_all_verify keyRevA (Some 5000000)) = Inr KS_revoked"
proof -
  have h1: "revA \<in> set (revocationSignatures keyRevA)" by (simp add: keyRevA_def)
  have h2: "fst (check_revocation ext_all_verify (primaryKey keyRevA)
                \<lparr> d_key = Some (primaryKey keyRevA), d_userid = None, d_bind = None \<rparr>
                (normalizeDate (Some 5000000)) revA)"
    by (simp add: check_revocation_def cached_verify_def ext_all_verify_def config_js_def
        revA_def sigA_def truthy_def)
  from verifyPrimaryKey_revocation_dominates [OF h1 h2] h1 h2 show ?thesis by blast
qed

text \<open>
  What \<open>isDataExpired\<close> computes for a version-4 key packet whose governing
  signature has \<open>keyNeverExpires = false\<close> and a key expiration time of \<open>n\<close> seconds:
  with the date floored to the second, the key is expired unless it was created by
  then and the date is before the creation of the signature plus \<open>n\<close> seconds, or
  when the signature itself is expired.
\<close>

theorem isDataExpired_version4:
  assumes "version keyPacket = 4" and "keyNeverExpires s = Some False"
    and "keyExpirationTime s = Some n" and "sig_created s + int n * 1000 \<noteq> 0"
    and "\<bar>sig_created s + int n * 1000\<bar> \<le> 8640000000000000"
  shows "isDataExpired env keyPacket (Some s) (Some t) =
           Inr (\<not> (created keyPacket \<le> (t div 1000) * 1000 \<and>
                   (t div 1000) * 1000 < sig_created s + int n * 1000)
                \<or> isExpired env s (Some t))"
  using assms
  by (simp add: isDataExpired_def getExpirationTime_def normalizeDate_def
      date_or_infinity_def to_number_def)

theorem isDataExpired_version4_witness:
  "version pkA = 4 \<and> keyNeverExpires sigExp = Some False \<and> keyExpirationTime sigExp = Some 3600
   \<and> sig_created sigExp + int 3600 * 1000 \<noteq> 0
   \<and> \<bar>sig_created sigExp + int 3600 * 1000\<bar> \<le> 8640000000000000
   \<and> isDataExpired ext_all_verify pkA (Some sigExp) (Some 5599999) = Inr False
   \<and> isDataExpired ext_all_verify pkA (Some sigExp) (Some 5600000) = Inr True"
proof -
  have h: "version pkA = 4" "keyNeverExpires sigExp = Some False"
    "keyExpirationTime sigExp = Some 3600" "sig_created sigExp + int 3600 * 1000 \<noteq> 0"
    "\<bar>sig_created sigExp + int 3600 * 1000\<bar> \<le> 8640000000000000"
    by (simp_all add: pkA_def sigExp_def sigA_def)
  have c: "created pkA = 1000000" "sig_created sigExp = 2000000"
    "\<not> isExpired ext_all_verify sigExp (Some 5599999)"
    "\<not> isExpired ext_all_verify sigExp (Some 5600000)"
    by (simp_all add: pkA_def sigExp_def sigA_def ext_all_verify_def)
  from isDataExpired_version4 [OF h, of ext_all_verify 5599999]
       isDataExpired_version4 [OF h, of ext_all_verify 5600000] h c
  show ?thesis by simp
qed

lemma users_loop_no_userId:
  "\<exists>u\<in>set us. userId u = None \<Longrightarrow> fst (users_loop env pKey date i us L) = None"
proof (induction us arbitrary: i L)
  case Nil
  then show ?case by simp
next
  case (Cons u us)
  show ?case
  proof (cases "userId u")
    case None
    then show ?thesis by simp
  next
    case (Some uid)
    with Cons.prems have "\<exists>u\<in>set us. userId u = None" by auto
    from Cons.IH [OF this]
    have ih: "\<And>L'. fst (users_loop env pKey date (Suc i) us L') = None" .
    obtain certs' revs' L' where
      c: "selfCertifications_loop env pKey uid date i 0 (selfCertifications u)
            (u_revocationSignatures u) L = (certs', revs', L')"
      by (cases "selfCertifications_loop env pKey uid date i 0 (selfCertifications u)
            (u_revocationSignatures u) L") auto
    obtain r us' where l: "users_loop env pKey date (Suc i) us L' = (r, us')"
      by (cases "users_loop env pKey date (Suc i) us L'") auto
    from ih [of L'] l have "r = None" by simp
    with Some c l show ?thesis by simp
  qed
qed

text \<open>
  \<open>getPrimaryUser\<close> returns nothing for a key that holds a user without a user ID
  packet (a user attribute), wherever that user stands and whatever the other users
  are.
\<close>

theorem getPrimaryUser_none_with_user_attribute:
  assumes "\<exists>u\<in>set (users k). userId u = None"
  shows "fst (getPrimaryUser env k date) = None"
proof -
  from users_loop_no_userId [OF assms]
  have "fst (users_loop env (primaryKey k) date 0 (users k)
          \<lparr> primaryUsers = [], lastCreated = None, lastPrimaryUserID = None \<rparr>) = None" .
  then show ?thesis
    by (cases "users_loop env (primaryKey k) date 0 (users k)
          \<lparr> primaryUsers = [], lastCreated = None, lastPrimaryUserID = None \<rparr>")
       (simp add: getPrimaryUser_def)
qed

theorem getPrimaryUser_none_with_user_attribute_witness:
  "(\<exists>u\<in>set (users keyAttrFirst). userId u = None)
   \<and> fst (getPrimaryUser ext_all_verify keyAttrFirst (Some 5000000)) = None"
proof -
  have h: "\<exists>u\<in>set (users keyAttrFirst). userId u = None"
    by (simp add: keyAttrFirst_def userOf_def User_def attrA_def)
  from getPrimaryUser_none_with_user_attribute [OF h] h show ?thesis by blast
qed


lemma cached_verify_True:
  "cached_verify env s k d = (True, s') \<Longrightarrow> truthy (verified s') \<and> revoked s' = revoked s"
  by (auto simp: cached_verify_def truthy_def split: if_splits)

lemma isDataRevoked_target:
  "isDataRevoked env pKey d revs (Some s) k date = (r, revs', c2) \<Longrightarrow>
   \<exists>s'. c2 = Some s' \<and> verified s' = verified s \<and> revoked s' = r"
  by (auto simp: isDataRevoked_def Let_def)

lemma selfCertification_body_pushes:
  assumes "selfCertification_body env pKey uid date i j cert revs L = (cert', revs', L')"
  shows "primaryUsers L' = primaryUsers L \<or>
         (primaryUsers L' = primaryUsers L @ [(i, j)] \<and> survives env date cert')"
proof (cases "not_most_recent cert L")
  case True
  with assms show ?thesis by (simp add: selfCertification_body_def)
next
  case False
  obtain ok cert1 where cv: "cached_verify env cert pKey
      \<lparr> d_key = Some pKey, d_userid = Some uid, d_bind = None \<rparr> = (ok, cert1)"
    by (cases "cached_verify env cert pKey
      \<lparr> d_key = Some pKey, d_userid = Some uid, d_bind = None \<rparr>") auto
  show ?thesis
  proof (cases "ok \<and> \<not> truthy (revoked cert1)")
    case no: False
    with assms False cv show ?thesis
      by (auto simp: selfCertification_body_def Let_def split: if_splits)
  next
    case yes: True
    from yes cv cached_verify_True [of env cert pKey _ cert1]
    have v1: "truthy (verified cert1)" by auto
    obtain r revs1 c2 where dr: "isDataRevoked env pKey
        \<lparr> d_key = Some pKey, d_userid = Some uid, d_bind = None \<rparr> revs (Some cert1) None date
        = (r, revs1, c2)"
      by (cases "isDataRevoked env pKey
        \<lparr> d_key = Some pKey, d_userid = Some uid, d_bind = None \<rparr> revs (Some cert1) None date")
         auto
    from isDataRevoked_target [OF dr] obtain s' where
      s': "c2 = Some s'" "verified s' = verified cert1" "revoked s' = r" by auto
    from assms False cv yes dr s' v1 show ?thesis
      by (auto simp: selfCertification_body_def Let_def survives_def split: if_splits)
  qed
qed

lemma selfCertifications_loop_pushes:
  "selfCertifications_loop env pKey uid date i j certs revs L = (certs', revs', L') \<Longrightarrow>
   length certs' = length certs \<and>
   (\<forall>(a, b)\<in>set (primaryUsers L').
      (a, b) \<in> set (primaryUsers L) \<or>
      (a = i \<and> j \<le> b \<and> b - j < length certs' \<and> survives env date (certs' ! (b - j))))"
proof (induction certs arbitrary: j revs L certs' revs' L')
  case Nil
  then show ?case by auto
next
  case (Cons c cs)
  obtain c1 revs1 L1 where b: "selfCertification_body env pKey uid date i j c revs L
      = (c1, revs1, L1)"
    by (cases "selfCertification_body env pKey uid date i j c revs L") auto
  obtain cs2 revs2 L2 where l: "selfCertifications_loop env pKey uid date i (Suc j) cs revs1 L1
      = (cs2, revs2, L2)"
    by (cases "selfCertifications_loop env pKey uid date i (Suc j) cs revs1 L1") auto
  from Cons.prems b l have eq: "certs' = c1 # cs2" "L' = L2" by simp_all
  from Cons.IH [OF l] have len: "length cs2 = length cs"
    and ih: "\<And>a b. (a, b) \<in> set (primaryUsers L2) \<Longrightarrow>
      (a, b) \<in> set (primaryUsers L1) \<or>
      (a = i \<and> Suc j \<le> b \<and> b - Suc j < length cs2 \<and> survives env date (cs2 ! (b - Suc j)))"
    by auto
  from selfCertification_body_pushes [OF b]
  have step: "\<And>a b. (a, b) \<in> set (primaryUsers L1) \<Longrightarrow>
      (a, b) \<in> set (primaryUsers L) \<or> (a = i \<and> b = j \<and> survives env date c1)"
    by auto
  show ?case
  proof (intro conjI ballI)
    show "length certs' = length (c # cs)" using eq len by simp
  next
    fix x assume x: "x \<in> set (primaryUsers L')"
    obtain a b where ab: "x = (a, b)" by (cases x)
    from x ab eq ih [of a b] have
      "(a, b) \<in> set (primaryUsers L1) \<or>
      (a = i \<and> Suc j \<le> b \<and> b - Suc j < length cs2 \<and> survives env date (cs2 ! (b - Suc j)))"
      by simp
    then have "(a, b) \<in> set (primaryUsers L) \<or>
      (a = i \<and> j \<le> b \<and> b - j < length certs' \<and> survives env date (certs' ! (b - j)))"
    proof
      assume "(a, b) \<in> set (primaryUsers L1)"
      from step [OF this] eq show ?thesis by auto
    next
      assume h: "a = i \<and> Suc j \<le> b \<and> b - Suc j < length cs2 \<and>
                 survives env date (cs2 ! (b - Suc j))"
      then have "b - j = Suc (b - Suc j)" by arith
      with h eq show ?thesis by auto
    qed
    with ab show "case x of (a, b) \<Rightarrow> (a, b) \<in> set (primaryUsers L) \<or>
      (a = i \<and> j \<le> b \<and> b - j < length certs' \<and> survives env date (certs' ! (b - j)))"
      by simp
  qed
qed


lemma users_loop_pushes:
  "users_loop env pKey date i us L = (Some L', us') \<Longrightarrow>
   length us' = length us \<and>
   (\<forall>(a, b)\<in>set (primaryUsers L').
      (a, b) \<in> set (primaryUsers L) \<or>
      (i \<le> a \<and> a - i < length us' \<and> userId (us' ! (a - i)) \<noteq> None \<and>
       b < length (selfCertifications (us' ! (a - i))) \<and>
       survives env date (selfCertifications (us' ! (a - i)) ! b)))"
proof (induction us arbitrary: i L L' us')
  case Nil
  then show ?case by auto
next
  case (Cons u us)
  from Cons.prems obtain uid where uid: "userId u = Some uid"
    by (cases "userId u") auto
  obtain certs1 revs1 L1 where c: "selfCertifications_loop env pKey uid date i 0
      (selfCertifications u) (u_revocationSignatures u) L = (certs1, revs1, L1)"
    by (cases "selfCertifications_loop env pKey uid date i 0
      (selfCertifications u) (u_revocationSignatures u) L") auto
  obtain r us2 where l: "users_loop env pKey date (Suc i) us L1 = (r, us2)"
    by (cases "users_loop env pKey date (Suc i) us L1") auto
  let ?u' = "u\<lparr>selfCertifications := certs1, u_revocationSignatures := revs1\<rparr>"
  from Cons.prems uid c l have eq: "r = Some L'" "us' = ?u' # us2" by simp_all
  from l eq have l': "users_loop env pKey date (Suc i) us L1 = (Some L', us2)" by simp
  from Cons.IH [OF l'] have len: "length us2 = length us"
    and ih: "\<And>a b. (a, b) \<in> set (primaryUsers L') \<Longrightarrow>
      (a, b) \<in> set (primaryUsers L1) \<or>
      (Suc i \<le> a \<and> a - Suc i < length us2 \<and> userId (us2 ! (a - Suc i)) \<noteq> None \<and>
       b < length (selfCertifications (us2 ! (a - Suc i))) \<and>
       survives env date (selfCertifications (us2 ! (a - Suc i)) ! b))"
    by auto
  from selfCertifications_loop_pushes [OF c]
  have step: "\<And>a b. (a, b) \<in> set (primaryUsers L1) \<Longrightarrow>
      (a, b) \<in> set (primaryUsers L) \<or>
      (a = i \<and> b < length certs1 \<and> survives env date (certs1 ! b))"
    by auto
  show ?case
  proof (intro conjI ballI)
    show "length us' = length (u # us)" using eq len by simp
  next
    fix x assume x: "x \<in> set (primaryUsers L')"
    obtain a b where ab: "x = (a, b)" by (cases x)
    from x ab ih [of a b] have
      "(a, b) \<in> set (primaryUsers L1) \<or>
      (Suc i \<le> a \<and> a - Suc i < length us2 \<and> userId (us2 ! (a - Suc i)) \<noteq> None \<and>
       b < length (selfCertifications (us2 ! (a - Suc i))) \<and>
       survives env date (selfCertifications (us2 ! (a - Suc i)) ! b))"
      by simp
    then have "(a, b) \<in> set (primaryUsers L) \<or>
      (i \<le> a \<and> a - i < length us' \<and> userId (us' ! (a - i)) \<noteq> None \<and>
       b < length (selfCertifications (us' ! (a - i))) \<and>
       survives env date (selfCertifications (us' ! (a - i)) ! b))"
    proof
      assume "(a, b) \<in> set (primaryUsers L1)"
      from step [OF this] eq uid show ?thesis by auto
    next
      assume h: "Suc i \<le> a \<and> a - Suc i < length us2 \<and> userId (us2 ! (a - Suc i)) \<noteq> None \<and>
       b < length (selfCertifications (us2 ! (a - Suc i))) \<and>
       survives env date (selfCertifications (us2 ! (a - Suc i)) ! b)"
      then have "a - i = Suc (a - Suc i)" by arith
      with h eq show ?thesis by auto
    qed
    with ab show "case x of (a, b) \<Rightarrow> (a, b) \<in> set (primaryUsers L) \<or>
      (i \<le> a \<and> a - i < length us' \<and> userId (us' ! (a - i)) \<noteq> None \<and>
       b < length (selfCertifications (us' ! (a - i))) \<and>
       survives env date (selfCertifications (us' ! (a - i)) ! b))"
      by simp
  qed
qed

lemma set_js_insert: "set (js_insert compare x ys) = insert x (set ys)"
  by (induction ys) auto

lemma set_js_sort: "set (js_sort compare xs) = set xs"
  by (induction xs) (simp_all add: js_sort_def set_js_insert)

text \<open>
  What \<open>getPrimaryUser\<close> returns, when it returns a user, is one of the key's users
  with a user ID packet, at its position in the key, together with one of that user's
  self-certifications that verifies, is not revoked and is not expired at the date.
\<close>

theorem getPrimaryUser_returns_survivor:
  assumes "fst (getPrimaryUser env k date) = Some p"
  shows "index p < length (users k) \<and>
         user p = users (snd (getPrimaryUser env k date)) ! index p \<and>
         userId (user p) \<noteq> None \<and>
         selfCertification p \<in> set (selfCertifications (user p)) \<and>
         survives env date (selfCertification p)"
proof -
  let ?L0 = "\<lparr> primaryUsers = [], lastCreated = None, lastPrimaryUserID = None \<rparr>"
  obtain r us' where l: "users_loop env (primaryKey k) date 0 (users k) ?L0 = (r, us')"
    by (cases "users_loop env (primaryKey k) date 0 (users k) ?L0") auto
  from assms l obtain L where r: "r = Some L"
    by (cases r) (auto simp: getPrimaryUser_def)
  let ?entries = "map (\<lambda>(i, j). \<lparr> index = i, user = us' ! i,
                        selfCertification = selfCertifications (us' ! i) ! j \<rparr>)
                      (primaryUsers L)"
  from assms l r have k': "snd (getPrimaryUser env k date) = k\<lparr>users := us'\<rparr>"
    and p: "js_sort primary_user_compare ?entries \<noteq> []"
       "p = last (js_sort primary_user_compare ?entries)"
    by (auto simp: getPrimaryUser_def Let_def split: if_splits)
  from p have "p \<in> set (js_sort primary_user_compare ?entries)"
    using last_in_set by blast
  then have "p \<in> set ?entries" by (simp only: set_js_sort)
  then obtain i j where ij: "(i, j) \<in> set (primaryUsers L)"
    and pe: "p = \<lparr> index = i, user = us' ! i,
                   selfCertification = selfCertifications (us' ! i) ! j \<rparr>"
    by auto
  from l r users_loop_pushes [of env "primaryKey k" date 0 "users k" ?L0 L us'] ij
  have "length us' = length (users k)" "i < length us'" "userId (us' ! i) \<noteq> None"
    "j < length (selfCertifications (us' ! i))"
    "survives env date (selfCertifications (us' ! i) ! j)"
    by auto
  with pe k' show ?thesis by simp
qed

theorem getPrimaryUser_returns_survivor_witness:
  "fst (getPrimaryUser ext_all_verify keyS5 (Some 5000000))
     = Some \<lparr> index = 0, user = userOf uidA [certS5a\<lparr>verified := Some True\<rparr>],
              selfCertification = certS5a\<lparr>verified := Some True\<rparr> \<rparr>
   \<and> survives ext_all_verify (Some 5000000) (certS5a\<lparr>verified := Some True\<rparr>)"
proof -
  have h: "fst (getPrimaryUser ext_all_verify keyS5 (Some 5000000))
     = Some \<lparr> index = 0, user = userOf uidA [certS5a\<lparr>verified := Some True\<rparr>],
              selfCertification = certS5a\<lparr>verified := Some True\<rparr> \<rparr>"
    by (simp add: evaluation examples keyS5_def certS5a_def certS5b_def uidB_def)
  from getPrimaryUser_returns_survivor [OF h] h show ?thesis by simp
qed

end
